theory Spec2Isabelle
  imports Main
begin

section \<open>JavaScript values, errors and format parts\<close>

text \<open>
  An exception of the JavaScript run time. \<open>TypeError\<close> is what calling a value that
  is not a function raises; \<open>Thrown\<close> is any other thrown value (a compiler error of
  the message database, an error of a resolver, what a subscriber throws).
\<close>

datatype js_error = TypeError string | Thrown string

text \<open>
  The entries of the array \<open>formatToParts\<close> returns (\<open>Array<string | any>\<close>): a
  string, or any other value. \<open>JObj v s\<close> is a value \<open>v\<close> that is not a string,
  with the string \<open>s\<close> that JavaScript's \<open>+\<close> converts it to when the other operand
  is a string.
\<close>

datatype 'o js_value = JStr string | JObj 'o string

fun js_toString :: "'o js_value \<Rightarrow> string" where
  "js_toString (JStr s) = s"
| "js_toString (JObj v s) = s"

text \<open>
  The parts a compiled message produces (\<open>intl-messageformat\<close>):
  \<open>{type: PART_TYPE.literal, value: string}\<close> and
  \<open>{type: PART_TYPE.object, value: T}\<close>.
\<close>

datatype PART_TYPE = literal | object

datatype 'o format_part = LiteralPart string | ObjectPart "'o js_value"

fun part_type :: "'o format_part \<Rightarrow> PART_TYPE" where
  "part_type (LiteralPart s) = literal"
| "part_type (ObjectPart v) = object"

fun part_value :: "'o format_part \<Rightarrow> 'o js_value" where
  "part_value (LiteralPart s) = JStr s"
| "part_value (ObjectPart v) = v"

section \<open>Messages and the manager\<close>

text \<open>
  A compiled message: the object \<open>formatToParts\<close> and \<open>formatToPlainString\<close> call
  with the formatters and formats of \<open>this.intl\<close> (the type \<open>'i\<close>) and the value
  bindings, an object read as a map from keys to values. Either method may throw.
  The plain-string method is passed \<open>values\<close> as the caller gave it, so possibly
  \<open>undefined\<close> (\<open>None\<close>).
\<close>

record ('i, 'b, 'o) template =
  tpl_formatToParts :: "'i \<Rightarrow> (string \<rightharpoonup> 'b) \<Rightarrow> js_error + 'o format_part list"
  tpl_formatToPlainString :: "'i \<Rightarrow> (string \<rightharpoonup> 'b) option \<Rightarrow> js_error + string"

datatype ('i, 'b, 'o) resolved =
  ResolvedString string
| ResolvedTemplate "('i, 'b, 'o) template"

text \<open>
  What the methods inspect with \<open>typeof\<close>: a string, a function of the locale
  (which may throw), or anything else, which the typed interface makes a compiled
  message.
\<close>

datatype ('i, 'b, 'o) message =
  MsgString string
| MsgFunction "string \<Rightarrow> js_error + ('i, 'b, 'o) resolved"
| MsgObject "('i, 'b, 'o) template"

type_synonym cb_id = nat

text \<open>
  The fields of \<open>IntlManager\<close>. \<open>localeSubscriptions\<close> is the JavaScript \<open>Set\<close> of
  callbacks, as the list of its entries in insertion order, a deleted entry left as
  an empty slot (\<open>None\<close>); callbacks are known by identity (\<open>cb_id\<close>).
\<close>

record ('i, 'b) manager =
  defaultLocale :: string
  currentLocale :: string
  intl :: 'i
  defaultRichTextElements :: "string \<rightharpoonup> 'b"
  localeSubscriptions :: "cb_id option list"

section \<open>formatToParts\<close>

text \<open>
  \<open>values != null ? { ...this.defaultRichTextElements, ...values }
                  : this.defaultRichTextElements\<close>:
  the spread copies the defaults' properties, then the caller's over them.
\<close>

definition resolvedValues ::
  "('i, 'b) manager \<Rightarrow> (string \<rightharpoonup> 'b) option \<Rightarrow> (string \<rightharpoonup> 'b)" where
  "resolvedValues m values =
     (case values of
        Some v \<Rightarrow> defaultRichTextElements m ++ v
      | None \<Rightarrow> defaultRichTextElements m)"

text \<open>
  \<open>result[result.length - 1] += part.value\<close>, for a literal part's string. On an
  empty array the assignment writes the property \<open>-1\<close>, which is no element.
\<close>

fun append_to_last :: "'o js_value list \<Rightarrow> string \<Rightarrow> 'o js_value list" where
  "append_to_last [] s = []"
| "append_to_last [v] s = [JStr (js_toString v @ s)]"
| "append_to_last (v # w # vs) s = v # append_to_last (w # vs) s"

text \<open>
  The loop over the parts, with its two variables. The condition
  \<open>inLiteral && (inLiteral = part.type === FormatPartType.literal)\<close> assigns
  \<open>inLiteral\<close> only when it was true; the statement after the \<open>if\<close> assigns it the
  same value again.
\<close>

fun merge_literals ::
  "'o js_value list \<Rightarrow> bool \<Rightarrow> 'o format_part list \<Rightarrow> 'o js_value list" where
  "merge_literals result inLiteral [] = result"
| "merge_literals result inLiteral (part # parts) =
     (if inLiteral \<and> part_type part = literal
      then merge_literals (append_to_last result (js_toString (part_value part))) True parts
      else merge_literals (result @ [part_value part]) (part_type part = literal) parts)"

text \<open>
  \<open>typeof message === 'function' ? message(this.currentLocale) : message\<close>.
\<close>

fun resolvedMessage ::
  "('i, 'b) manager \<Rightarrow> ('i, 'b, 'o) message \<Rightarrow> js_error + ('i, 'b, 'o) resolved" where
  "resolvedMessage m (MsgFunction f) = f (currentLocale m)"
| "resolvedMessage m (MsgObject t) = Inr (ResolvedTemplate t)"
| "resolvedMessage m (MsgString s) = Inr (ResolvedString s)"

fun formatToParts ::
  "('i, 'b) manager \<Rightarrow> ('i, 'b, 'o) message \<Rightarrow> (string \<rightharpoonup> 'b) option
     \<Rightarrow> js_error + 'o js_value list" where
  "formatToParts m (MsgString s) values = Inr [JStr s]"
| "formatToParts m message values =
     (case resolvedMessage m message of
        Inl e \<Rightarrow> Inl e
      | Inr (ResolvedString s) \<Rightarrow> Inr [JStr s]
      | Inr (ResolvedTemplate t) \<Rightarrow>
          (case tpl_formatToParts t (intl m) (resolvedValues m values) of
             Inl e \<Rightarrow> Inl e
           | Inr parts \<Rightarrow> Inr (merge_literals [] False parts)))"

section \<open>The string projections\<close>

text \<open>
  \<open>message(this.currentLocale)\<close>: calling a message that is not a function raises
  a \<open>TypeError\<close>.
\<close>

fun call_message ::
  "('i, 'b, 'o) message \<Rightarrow> string \<Rightarrow> js_error + ('i, 'b, 'o) resolved" where
  "call_message (MsgFunction f) locale = f locale"
| "call_message message locale = Inl (TypeError ''message is not a function'')"

fun formatToPlainString ::
  "('i, 'b) manager \<Rightarrow> ('i, 'b, 'o) message \<Rightarrow> (string \<rightharpoonup> 'b) option
     \<Rightarrow> js_error + string" where
  "formatToPlainString m (MsgString s) values = Inr s"
| "formatToPlainString m message values =
     (case call_message message (currentLocale m) of
        Inl e \<Rightarrow> Inl e
      | Inr (ResolvedString s) \<Rightarrow> Inr s
      | Inr (ResolvedTemplate t) \<Rightarrow> tpl_formatToPlainString t (intl m) values)"

text \<open>\<open>string(message)\<close> calls \<open>formatToPlainString\<close> with no second argument.\<close>

definition string' :: "('i, 'b) manager \<Rightarrow> ('i, 'b, 'o) message \<Rightarrow> js_error + string" where
  "string' m message = formatToPlainString m message None"

fun formatToMarkdownString ::
  "('i, 'b) manager \<Rightarrow> ('i, 'b, 'o) message \<Rightarrow> (string \<rightharpoonup> 'b) option
     \<Rightarrow> js_error + string" where
  "formatToMarkdownString m (MsgString s) values = Inr s"
| "formatToMarkdownString m message values =
     (case call_message message (currentLocale m) of
        Inl e \<Rightarrow> Inl e
      | Inr (ResolvedString s) \<Rightarrow> Inr s
      | Inr (ResolvedTemplate t) \<Rightarrow> tpl_formatToPlainString t (intl m) values)"

section \<open>The locale and its subscribers\<close>

definition DEFAULT_LOCALE :: string where
  "DEFAULT_LOCALE = ''en-US''"

text \<open>
  The argument of \<open>createIntl\<close> (\<open>@formatjs/intl\<close>): \<open>cfg_formats\<close> says whether
  \<open>formats: IntlMessageFormat.formats\<close> is passed, as the constructor does and
  \<open>setLocale\<close> does not. \<open>createIntl\<close> itself is outside the repository: the
  operations take it as a parameter that returns the \<open>IntlShape\<close> or throws.
\<close>

record intl_config =
  cfg_formats :: bool
  cfg_defaultLocale :: string
  cfg_locale :: string

text \<open>
  \<open>new IntlManager(defaultLocale, defaultRichTextElements)\<close>: the default
  parameter value \<open>DEFAULT_LOCALE\<close> applies when the argument is \<open>undefined\<close>
  (\<open>None\<close>).
\<close>

definition new_IntlManager ::
  "(intl_config \<Rightarrow> js_error + 'i) \<Rightarrow> string option \<Rightarrow> (string \<rightharpoonup> 'b)
     \<Rightarrow> js_error + ('i, 'b) manager" where
  "new_IntlManager createIntl defaultLocaleArg elements =
     (let dl = (case defaultLocaleArg of None \<Rightarrow> DEFAULT_LOCALE | Some l \<Rightarrow> l) in
      case createIntl \<lparr>cfg_formats = True, cfg_defaultLocale = dl, cfg_locale = dl\<rparr> of
        Inl e \<Rightarrow> Inl e
      | Inr i \<Rightarrow>
          Inr \<lparr>defaultLocale = dl, currentLocale = dl, intl = i,
               defaultRichTextElements = elements, localeSubscriptions = []\<rparr>)"

text \<open>
  The \<open>Set\<close> operations on the entry list. \<open>add\<close> appends a value that is not
  in the set; \<open>delete\<close> empties the value's slot, and the slots after it keep their
  positions, so that a running iteration skips a deleted entry it has not reached and
  still reaches an entry added behind it. \<open>set_values\<close> lists the values in
  insertion order.
\<close>

definition set_add :: "cb_id \<Rightarrow> cb_id option list \<Rightarrow> cb_id option list" where
  "set_add c es = (if Some c \<in> set es then es else es @ [Some c])"

definition set_delete :: "cb_id \<Rightarrow> cb_id option list \<Rightarrow> cb_id option list" where
  "set_delete c es = map (\<lambda>e. if e = Some c then None else e) es"

fun set_values :: "cb_id option list \<Rightarrow> cb_id list" where
  "set_values [] = []"
| "set_values (None # es) = set_values es"
| "set_values (Some c # es) = c # set_values es"

text \<open>
  \<open>onLocaleChange(callback)\<close> adds the callback and returns the function
  \<open>() => this._localeSubscriptions.delete(callback)\<close>, which is \<open>dispose callback\<close>.
\<close>

definition onLocaleChange :: "cb_id \<Rightarrow> ('i, 'b) manager \<Rightarrow> ('i, 'b) manager" where
  "onLocaleChange callback m =
     m\<lparr>localeSubscriptions := set_add callback (localeSubscriptions m)\<rparr>"

definition dispose :: "cb_id \<Rightarrow> ('i, 'b) manager \<Rightarrow> ('i, 'b) manager" where
  "dispose callback m =
     m\<lparr>localeSubscriptions := set_delete callback (localeSubscriptions m)\<rparr>"

text \<open>
  A subscriber is a closure the manager calls with the new locale. What it does to
  the manager is a program over the manager's public interface, a sequence of
  actions: it subscribes callbacks, calls disposers, assigns the public fields,
  calls \<open>setLocale\<close> or \<open>emitLocaleChange\<close> itself, throws, which ends it, or
  reads the manager (\<open>Inspect\<close>) and goes on with the actions that its state calls
  for, before the actions that follow. A table \<open>prog\<close> gives the body of each
  callback for the locale it is called with. The field \<open>_localeSubscriptions\<close>
  changes only through \<open>onLocaleChange\<close> and the disposers, and a subscriber does
  not catch what a method it calls throws.
\<close>

datatype ('i, 'b) action =
  Subscribe cb_id
| Dispose cb_id
| AssignDefaultLocale string
| AssignCurrentLocale string
| AssignIntl 'i
| AssignDefaultRichTextElements "string \<rightharpoonup> 'b"
| CallSetLocale string
| CallEmitLocaleChange string
| Throw js_error
| Inspect "('i, 'b) manager \<Rightarrow> ('i, 'b) action list"

text \<open>The effect on the manager of an action that changes it.\<close>

fun perform :: "('i, 'b) action \<Rightarrow> ('i, 'b) manager \<Rightarrow> ('i, 'b) manager" where
  "perform (Subscribe c) m = onLocaleChange c m"
| "perform (Dispose c) m = dispose c m"
| "perform (AssignDefaultLocale l) m = m\<lparr>defaultLocale := l\<rparr>"
| "perform (AssignCurrentLocale l) m = m\<lparr>currentLocale := l\<rparr>"
| "perform (AssignIntl i) m = m\<lparr>intl := i\<rparr>"
| "perform (AssignDefaultRichTextElements d) m = m\<lparr>defaultRichTextElements := d\<rparr>"
| "perform a m = m"

text \<open>The manager, with the record of the calls made to subscribers so far.\<close>

record ('i, 'b) mstate =
  mgr :: "('i, 'b) manager"
  calls :: "(cb_id \<times> string) list"

text \<open>
  \<open>setLocale\<close>, \<open>emitLocaleChange\<close> and the subscribers call each other, so they
  are one recursive function \<open>run\<close> of what is being run:
  \<^item> \<open>SetLocale locale\<close> is the body of \<open>setLocale(locale)\<close>, its three
    statements in order; when \<open>createIntl\<close> throws, \<open>currentLocale\<close> is already
    assigned and no subscriber is called;
  \<^item> \<open>EmitLocaleChange locale i\<close> is the loop
    \<open>for (const callback of this._localeSubscriptions) callback(locale)\<close> from the
    entry at index \<open>i\<close>: the iterator holds an index into the entries and reads
    the set as it is at each step, and nothing catches what a callback throws;
  \<^item> \<open>Body actions\<close> is the rest of the body of a callback that has been called.
  An action throws, calls one of the two methods, or takes a step on the manager
  (\<open>kind_of\<close>): it changes the manager and nothing follows from it, or it reads the
  manager and the actions it chooses come next. A callback that keeps adding
  entries, or that calls \<open>setLocale\<close> from every call, keeps the program running,
  so \<open>run\<close> is a partial function: \<open>None\<close> is no return.
\<close>

datatype ('i, 'b) running =
  SetLocale string
| EmitLocaleChange string nat
| Body "('i, 'b) action list"

datatype ('i, 'b) kind =
  Throws js_error
| Calls "('i, 'b) running"
| Steps "('i, 'b) manager \<Rightarrow> ('i, 'b) manager \<times> ('i, 'b) action list"

fun kind_of :: "('i, 'b) action \<Rightarrow> ('i, 'b) kind" where
  "kind_of (Throw e) = Throws e"
| "kind_of (CallSetLocale locale) = Calls (SetLocale locale)"
| "kind_of (CallEmitLocaleChange locale) = Calls (EmitLocaleChange locale 0)"
| "kind_of (Inspect f) = Steps (\<lambda>m. (m, f m))"
| "kind_of a = Steps (\<lambda>m. (perform a m, []))"

partial_function (option) run ::
  "(intl_config \<Rightarrow> js_error + 'i) \<Rightarrow> (cb_id \<Rightarrow> string \<Rightarrow> ('i, 'b) action list)
     \<Rightarrow> ('i, 'b) running \<Rightarrow> ('i, 'b) mstate \<Rightarrow> ((js_error + unit) \<times> ('i, 'b) mstate) option" where
  "run createIntl prog what s =
     (case what of
        SetLocale locale \<Rightarrow>
          (let m = (mgr s)\<lparr>currentLocale := locale\<rparr> in
           case createIntl \<lparr>cfg_formats = False, cfg_defaultLocale = defaultLocale m,
                            cfg_locale = locale\<rparr> of
             Inl e \<Rightarrow> Some (Inl e, s\<lparr>mgr := m\<rparr>)
           | Inr i \<Rightarrow>
               run createIntl prog (EmitLocaleChange locale 0) (s\<lparr>mgr := m\<lparr>intl := i\<rparr>\<rparr>))
      | EmitLocaleChange locale i \<Rightarrow>
          (if i < length (localeSubscriptions (mgr s)) then
             (case localeSubscriptions (mgr s) ! i of
                None \<Rightarrow> run createIntl prog (EmitLocaleChange locale (Suc i)) s
              | Some callback \<Rightarrow>
                  Option.bind
                    (run createIntl prog (Body (prog callback locale))
                       (s\<lparr>calls := calls s @ [(callback, locale)]\<rparr>))
                    (\<lambda>(r, s').
                       case r of
                         Inl e \<Rightarrow> Some (Inl e, s')
                       | Inr u \<Rightarrow> run createIntl prog (EmitLocaleChange locale (Suc i)) s'))
           else Some (Inr (), s))
      | Body [] \<Rightarrow> Some (Inr (), s)
      | Body (a # actions) \<Rightarrow>
          (case kind_of a of
             Throws e \<Rightarrow> Some (Inl e, s)
           | Calls callee \<Rightarrow>
               Option.bind (run createIntl prog callee s)
                 (\<lambda>(r, s').
                    case r of
                      Inl e \<Rightarrow> Some (Inl e, s')
                    | Inr u \<Rightarrow> run createIntl prog (Body actions) s')
           | Steps f \<Rightarrow>
               run createIntl prog (Body (snd (f (mgr s)) @ actions))
                 (s\<lparr>mgr := fst (f (mgr s))\<rparr>)))"

declare run.simps [code]

definition setLocale ::
  "(intl_config \<Rightarrow> js_error + 'i) \<Rightarrow> (cb_id \<Rightarrow> string \<Rightarrow> ('i, 'b) action list) \<Rightarrow> string
     \<Rightarrow> ('i, 'b) mstate \<Rightarrow> ((js_error + unit) \<times> ('i, 'b) mstate) option" where
  "setLocale createIntl prog locale s = run createIntl prog (SetLocale locale) s"

definition emitLocaleChange ::
  "(intl_config \<Rightarrow> js_error + 'i) \<Rightarrow> (cb_id \<Rightarrow> string \<Rightarrow> ('i, 'b) action list) \<Rightarrow> string
     \<Rightarrow> ('i, 'b) mstate \<Rightarrow> ((js_error + unit) \<times> ('i, 'b) mstate) option" where
  "emitLocaleChange createIntl prog locale s = run createIntl prog (EmitLocaleChange locale 0) s"

text \<open>
  Conditions on what a subscriber does, whatever it reads. \<open>calls_nothing\<close>: it
  calls neither \<open>setLocale\<close> nor \<open>emitLocaleChange\<close>. \<open>locale_ok Q\<close>: the locales
  it passes to \<open>setLocale\<close> or assigns to \<open>currentLocale\<close> all satisfy \<open>Q\<close>.
\<close>

primrec calls_nothing :: "('i, 'b) action \<Rightarrow> bool" where
  "calls_nothing (Subscribe x) = True"
| "calls_nothing (Dispose d) = True"
| "calls_nothing (AssignDefaultLocale l) = True"
| "calls_nothing (AssignCurrentLocale l) = True"
| "calls_nothing (AssignIntl i) = True"
| "calls_nothing (AssignDefaultRichTextElements d) = True"
| "calls_nothing (CallSetLocale l) = False"
| "calls_nothing (CallEmitLocaleChange l) = False"
| "calls_nothing (Throw e) = True"
| "calls_nothing (Inspect f) = (\<forall>m. list_all calls_nothing (f m))"

primrec locale_ok :: "(string \<Rightarrow> bool) \<Rightarrow> ('i, 'b) action \<Rightarrow> bool" where
  "locale_ok Q (Subscribe x) = True"
| "locale_ok Q (Dispose d) = True"
| "locale_ok Q (AssignDefaultLocale l) = True"
| "locale_ok Q (AssignCurrentLocale l) = Q l"
| "locale_ok Q (AssignIntl i) = True"
| "locale_ok Q (AssignDefaultRichTextElements d) = True"
| "locale_ok Q (CallSetLocale l) = Q l"
| "locale_ok Q (CallEmitLocaleChange l) = True"
| "locale_ok Q (Throw e) = True"
| "locale_ok Q (Inspect f) = (\<forall>m. list_all (locale_ok Q) (f m))"



text \<open>
  The state of the set while the loop is at index \<open>k\<close>, against the entries \<open>E0\<close>
  the loop started with: the entries from \<open>k\<close> on are as they were, and the
  entries added since hold no subscriber that was registered then.
\<close>

definition pending_kept :: "cb_id option list \<Rightarrow> nat \<Rightarrow> cb_id option list \<Rightarrow> bool" where
  "pending_kept E0 k E =
     (length E0 \<le> length E \<and>
      (\<forall>j. k \<le> j \<and> j < length E0 \<longrightarrow> E ! j = E0 ! j) \<and>
      (\<forall>j x. length E0 \<le> j \<and> j < length E \<and> E ! j = Some x \<longrightarrow> x \<notin> set (set_values E0)))"

section \<open>Strings and paths\<close>

text \<open>
  \<open>String.prototype.substring(indexStart, indexEnd)\<close>: both indices are clamped to
  the string, and swapped when the first is the larger. \<open>lastIndexOf(searchString)\<close>
  is the largest index at which \<open>searchString\<close> starts, or \<open>-1\<close>.
\<close>

definition js_substring :: "string \<Rightarrow> int \<Rightarrow> int \<Rightarrow> string" where
  "js_substring s indexStart indexEnd =
     (let n = int (length s);
          a = max 0 (min indexStart n);
          b = max 0 (min indexEnd n)
      in take (nat (max a b - min a b)) (drop (nat (min a b)) s))"

fun lastIndexOf_from :: "string \<Rightarrow> string \<Rightarrow> nat \<Rightarrow> int" where
  "lastIndexOf_from s searchString 0 =
     (if take (length searchString) s = searchString then 0 else - 1)"
| "lastIndexOf_from s searchString (Suc k) =
     (if take (length searchString) (drop (Suc k) s) = searchString then int (Suc k)
      else lastIndexOf_from s searchString k)"

definition lastIndexOf :: "string \<Rightarrow> string \<Rightarrow> int" where
  "lastIndexOf s searchString = lastIndexOf_from s searchString (length s)"

text \<open>
  The functions of Node's \<open>path\<close> module that the watcher calls, for POSIX paths.
  They belong to the run time, not to the repository. \<open>normalizeString\<close> drops empty
  and \<open>.\<close> segments and lets \<open>..\<close> remove the segment before it; above the start
  of the path \<open>..\<close> is kept only when \<open>allowAboveRoot\<close> holds.
\<close>

fun split_path :: "string \<Rightarrow> string list" where
  "split_path [] = [[]]"
| "split_path (c # cs) =
     (if c = CHR ''/'' then [] # split_path cs
      else (case split_path cs of seg # segs \<Rightarrow> (c # seg) # segs | [] \<Rightarrow> [[c]]))"

fun join_path :: "string list \<Rightarrow> string" where
  "join_path [] = []"
| "join_path [seg] = seg"
| "join_path (seg # segs) = seg @ ''/'' @ join_path segs"

fun normalize_segments :: "bool \<Rightarrow> string list \<Rightarrow> string list \<Rightarrow> string list" where
  "normalize_segments allowAboveRoot res [] = res"
| "normalize_segments allowAboveRoot res (seg # segs) =
     (if seg = [] \<or> seg = ''.'' then normalize_segments allowAboveRoot res segs
      else if seg = ''..'' then
        (if res \<noteq> [] \<and> last res \<noteq> ''..''
         then normalize_segments allowAboveRoot (butlast res) segs
         else if allowAboveRoot then normalize_segments allowAboveRoot (res @ [''..'']) segs
         else normalize_segments allowAboveRoot res segs)
      else normalize_segments allowAboveRoot (res @ [seg]) segs)"

definition normalizeString :: "string \<Rightarrow> bool \<Rightarrow> string" where
  "normalizeString path allowAboveRoot =
     join_path (normalize_segments allowAboveRoot [] (split_path path))"

text \<open>
  \<open>path.resolve(...args)\<close> reads its arguments from the last to the first, then the
  working directory \<open>cwd\<close>, and stops at the first absolute one.
\<close>

fun resolve_loop :: "string list \<Rightarrow> string \<Rightarrow> bool \<Rightarrow> string \<times> bool" where
  "resolve_loop [] resolvedPath resolvedAbsolute = (resolvedPath, resolvedAbsolute)"
| "resolve_loop (path # paths) resolvedPath resolvedAbsolute =
     (if resolvedAbsolute then (resolvedPath, resolvedAbsolute)
      else if path = [] then resolve_loop paths resolvedPath resolvedAbsolute
      else resolve_loop paths (path @ ''/'' @ resolvedPath) (hd path = CHR ''/''))"

definition path_resolve :: "string \<Rightarrow> string list \<Rightarrow> string" where
  "path_resolve cwd args =
     (case resolve_loop (rev args @ [cwd]) [] False of
        (resolvedPath, resolvedAbsolute) \<Rightarrow>
          (let normalized = normalizeString resolvedPath (\<not> resolvedAbsolute) in
           if resolvedAbsolute then ''/'' @ normalized
           else if normalized \<noteq> [] then normalized else ''.''))"

text \<open>
  \<open>path.dirname(path)\<close>: the loop runs from the last index down to 1 and stops at
  the first slash that follows a character other than a slash.
\<close>

fun dirname_loop :: "string \<Rightarrow> nat \<Rightarrow> bool \<Rightarrow> int" where
  "dirname_loop path 0 matchedSlash = - 1"
| "dirname_loop path (Suc i) matchedSlash =
     (if path ! Suc i = CHR ''/''
      then (if \<not> matchedSlash then int (Suc i) else dirname_loop path i matchedSlash)
      else dirname_loop path i False)"

definition path_dirname :: "string \<Rightarrow> string" where
  "path_dirname path =
     (if path = [] then ''.''
      else let hasRoot = (hd path = CHR ''/'');
               endIndex = dirname_loop path (length path - 1) True
           in if endIndex = - 1 then (if hasRoot then ''/'' else ''.'')
              else if hasRoot \<and> endIndex = 1 then ''//''
              else take (nat endIndex) path)"

definition path_normalize :: "string \<Rightarrow> string" where
  "path_normalize path =
     (if path = [] then ''.''
      else let isAbsolute = (hd path = CHR ''/'');
               trailingSeparator = (last path = CHR ''/'');
               normalized = normalizeString path (\<not> isAbsolute)
           in if normalized = []
              then (if isAbsolute then ''/'' else if trailingSeparator then ''./'' else ''.'')
              else (if isAbsolute then ''/'' else []) @ normalized
                     @ (if trailingSeparator then ''/'' else []))"

definition path_join :: "string list \<Rightarrow> string" where
  "path_join args =
     (case filter (\<lambda>arg. arg \<noteq> []) args of
        [] \<Rightarrow> ''.''
      | joined \<Rightarrow> path_normalize (join_path joined))"

text \<open>\<open>Array.prototype.join(separator)\<close> on strings.\<close>

fun js_join :: "string \<Rightarrow> string list \<Rightarrow> string" where
  "js_join separator [] = []"
| "js_join separator [x] = x"
| "js_join separator (x # xs) = x @ separator @ js_join separator xs"

section \<open>Compiling message definition files\<close>

text \<open>
  The output path \<open>processFile\<close> computes: \<open>fileBasename\<close> is the whole of
  \<open>filePath\<close> before its last \<open>.messages.js\<close>, directory included.
\<close>

definition outputPath :: "string \<Rightarrow> string \<Rightarrow> string" where
  "outputPath cwd filePath =
     (let fileBasename = js_substring filePath 0 (lastIndexOf filePath ''.messages.js'')
      in path_resolve cwd [path_dirname filePath, fileBasename @ ''.compiled.messages.jsona''])"

text \<open>
  The message database (\<open>@discord/intl-message-database\<close>, \<open>./src/database\<close>) is
  outside the repository's files: \<open>processFile\<close> takes it as a record of its three
  functions. \<open>'db\<close> is everything the database owns, the artifacts it writes
  included; a call returns normally or throws, and leaves a new \<open>'db\<close> either way.
\<close>

datatype IntlCompiledMessageFormat = Json

record 'db compiler =
  isMessageDefinitionsFile :: "string \<Rightarrow> bool"
  processDefinitionsFile :: "string \<Rightarrow> 'db \<Rightarrow> (js_error + unit) \<times> 'db"
  precompile ::
    "string \<Rightarrow> string \<Rightarrow> string \<Rightarrow> IntlCompiledMessageFormat \<Rightarrow> 'db \<Rightarrow> (js_error + unit) \<times> 'db"

text \<open>
  What the watcher changes: the database, the lines written with \<open>debug\<close>, the
  errors written with \<open>console.error\<close>, and the globs \<open>chokidar\<close> watches, if any.
\<close>

record 'db build =
  database :: 'db
  debug_lines :: "string list"
  console_errors :: "js_error list"
  watching :: "string list option"

definition debug :: "string \<Rightarrow> 'db build \<Rightarrow> 'db build" where
  "debug line s = s\<lparr>debug_lines := debug_lines s @ [line]\<rparr>"

definition console_error :: "js_error \<Rightarrow> 'db build \<Rightarrow> 'db build" where
  "console_error e s = s\<lparr>console_errors := console_errors s @ [e]\<rparr>"

text \<open>
  \<open>try { block } catch (e) { handler }\<close>: the handler runs in the state the block
  left when it threw, and what the handler throws is thrown.
\<close>

definition try_catch ::
  "('s \<Rightarrow> (js_error + unit) \<times> 's) \<Rightarrow> (js_error \<Rightarrow> 's \<Rightarrow> (js_error + unit) \<times> 's)
     \<Rightarrow> 's \<Rightarrow> (js_error + unit) \<times> 's" where
  "try_catch block handler s =
     (case block s of
        (Inl e, s') \<Rightarrow> handler e s'
      | (Inr u, s') \<Rightarrow> (Inr u, s'))"

text \<open>The \<open>try\<close> block of \<open>processFile\<close>, and its \<open>catch\<close> block.\<close>

definition processFile_try ::
  "'db compiler \<Rightarrow> string \<Rightarrow> string \<Rightarrow> 'db build \<Rightarrow> (js_error + unit) \<times> 'db build" where
  "processFile_try svc cwd filePath s =
     (case processDefinitionsFile svc filePath (database s) of
        (Inl e, db) \<Rightarrow> (Inl e, s\<lparr>database := db\<rparr>)
      | (Inr u, db) \<Rightarrow>
          (case precompile svc filePath ''en-US'' (outputPath cwd filePath) Json db of
             (r, db') \<Rightarrow> (r, s\<lparr>database := db'\<rparr>)))"

definition processFile_catch :: "js_error \<Rightarrow> 'db build \<Rightarrow> (js_error + unit) \<times> 'db build" where
  "processFile_catch e s =
     (Inr (), console_error e (debug ''[INTL Error] Failed to compile messages'' s))"

definition processFile ::
  "'db compiler \<Rightarrow> string \<Rightarrow> string \<Rightarrow> 'db build \<Rightarrow> (js_error + unit) \<times> 'db build" where
  "processFile svc cwd filePath s =
     (if \<not> isMessageDefinitionsFile svc filePath then (Inr (), s)
      else try_catch (processFile_try svc cwd filePath) processFile_catch
             (debug (''Processing file: '' @ filePath) s))"

text \<open>
  The initial scan, \<open>for await (const filePath of fg.stream(...)) processFile(...)\<close>,
  over the paths the stream yields: what \<open>processFile\<close> throws ends the loop.
\<close>

fun scan_loop ::
  "'db compiler \<Rightarrow> string \<Rightarrow> string list \<Rightarrow> 'db build \<Rightarrow> (js_error + unit) \<times> 'db build" where
  "scan_loop svc cwd [] s = (Inr (), s)"
| "scan_loop svc cwd (filePath # rest) s =
     (case processFile svc cwd filePath s of
        (Inl e, s') \<Rightarrow> (Inl e, s')
      | (Inr u, s') \<Rightarrow> scan_loop svc cwd rest s')"

text \<open>The listener \<open>.on('all', (event, filePath) => ...)\<close>, run once per event.\<close>

definition on_all ::
  "'db compiler \<Rightarrow> string \<Rightarrow> string \<Rightarrow> string \<Rightarrow> 'db build \<Rightarrow> (js_error + unit) \<times> 'db build" where
  "on_all svc cwd event filePath s =
     processFile svc cwd filePath (debug (''Got event '' @ event @ '' for '' @ filePath) s)"

text \<open>
  \<open>compileIntlMessageFiles(watchedFolders, {watch})\<close>. \<open>fg_stream\<close> is fast-glob's
  search for the globs: the paths it yields, and the error it ends with when the
  search itself fails.
\<close>

definition compileIntlMessageFiles ::
  "'db compiler \<Rightarrow> (string list \<Rightarrow> string list \<times> js_error option) \<Rightarrow> string \<Rightarrow> string list
     \<Rightarrow> bool \<Rightarrow> 'db build \<Rightarrow> (js_error + unit) \<times> 'db build" where
  "compileIntlMessageFiles svc fg_stream cwd watchedFolders watch s =
     (let globs = map (\<lambda>folder. path_join [folder, ''**/*.messages.js'']) watchedFolders in
      case fg_stream globs of
        (found, failure) \<Rightarrow>
          (case scan_loop svc cwd found (debug ''Scanning for initial messages files'' s) of
             (Inl e, s') \<Rightarrow> (Inl e, s')
           | (Inr u, s') \<Rightarrow>
               (case failure of
                  Some e \<Rightarrow> (Inl e, s')
                | None \<Rightarrow>
                    (let s'' = debug ''Initial message scan completed.'' s' in
                     if watch
                     then (Inr (),
                           (debug (''Setting up file watching for configured paths:''
                                     @ [CHR 0x0A] @ ''- '' @ js_join ([CHR 0x0A] @ ''- '') globs) s'')
                             \<lparr>watching := Some globs\<rparr>)
                     else (Inr (),
                           debug ''Not watching files because `watch` option was false'' s'')))))"

section \<open>Literal runs\<close>

text \<open>
  The specification's reading of the coalescing step, to compare the loop with: the
  parts are cut into groups, each a maximal run of consecutive literal parts or one
  single part that is not literal, and every group gives one entry of the result.
\<close>

fun is_literal :: "'o format_part \<Rightarrow> bool" where
  "is_literal (LiteralPart s) = True"
| "is_literal (ObjectPart v) = False"

function literal_runs :: "'o format_part list \<Rightarrow> 'o format_part list list" where
  "literal_runs [] = []"
| "literal_runs (ObjectPart v # ps) = [ObjectPart v] # literal_runs ps"
| "literal_runs (LiteralPart s # ps) =
     (LiteralPart s # takeWhile is_literal ps) # literal_runs (dropWhile is_literal ps)"
  by pat_completeness auto
termination
  by (relation "measure length") (auto simp: le_imp_less_Suc length_dropWhile_le)

definition is_literal_run :: "'o format_part list \<Rightarrow> bool" where
  "is_literal_run g = (g \<noteq> [] \<and> list_all is_literal g)"

fun run_entry :: "'o format_part list \<Rightarrow> 'o js_value" where
  "run_entry [ObjectPart v] = v"
| "run_entry g = JStr (concat (map (\<lambda>p. js_toString (part_value p)) g))"

fun adjacent_literal_runs :: "'o format_part list list \<Rightarrow> bool" where
  "adjacent_literal_runs (g # h # gs) =
     ((is_literal_run g \<and> is_literal_run h) \<or> adjacent_literal_runs (h # gs))"
| "adjacent_literal_runs gs = False"

section \<open>Example inputs\<close>

text \<open>A \<open>createIntl\<close> that accepts every locale and returns its configuration.\<close>

definition plain_createIntl :: "intl_config \<Rightarrow> js_error + intl_config" where
  "plain_createIntl config = Inr config"

text \<open>
  A manager with two subscribers, and one with three whose set has an emptied slot;
  \<open>b\<close> is the only default rich text element.
\<close>

definition two_subscribers :: "(intl_config, nat) manager" where
  "two_subscribers =
     \<lparr>defaultLocale = ''en-US'', currentLocale = ''en-US'',
      intl = \<lparr>cfg_formats = True, cfg_defaultLocale = ''en-US'', cfg_locale = ''en-US''\<rparr>,
      defaultRichTextElements = [''b'' \<mapsto> 1],
      localeSubscriptions = [Some 1, Some 2]\<rparr>"

definition three_subscribers :: "(intl_config, nat) manager" where
  "three_subscribers = two_subscribers\<lparr>localeSubscriptions := [Some 1, None, Some 2, Some 3]\<rparr>"

text \<open>
  Callback tables: what each subscriber does when it is called.
  \<^item> \<open>second_throws\<close>: the second subscriber disposes the first and throws.
  \<^item> \<open>tidy_subscribers\<close>: called with \<open>fr\<close>, the first subscriber disposes
    itself and subscribes a new callback; the second, if the current locale is
    \<open>fr\<close>, calls \<open>emitLocaleChange('ping')\<close>, then disposes itself.
  \<^item> \<open>first_switches_back\<close>: the first subscriber is
    \<open>() => { if (m.currentLocale !== 'en-US') m.setLocale('en-US') }\<close>.
  \<^item> \<open>second_subscribes_first\<close>: the first subscriber disposes itself and the
    second subscribes it again.
  \<^item> \<open>second_emits_again\<close>: the second subscriber disposes itself and calls
    \<open>emitLocaleChange\<close> with the locale it was given.
  \<^item> \<open>first_pings\<close>: the first subscriber calls \<open>emitLocaleChange('ping')\<close>,
    and disposes the second when it is called with \<open>ping\<close>.
\<close>

definition all_return :: "cb_id \<Rightarrow> string \<Rightarrow> (intl_config, nat) action list" where
  "all_return callback locale = []"

definition first_throws :: "cb_id \<Rightarrow> string \<Rightarrow> (intl_config, nat) action list" where
  "first_throws callback locale = (if callback = 1 then [Throw (Thrown ''boom'')] else [])"

definition second_throws :: "cb_id \<Rightarrow> string \<Rightarrow> (intl_config, nat) action list" where
  "second_throws callback locale =
     (if callback = 2 then [Dispose 1, Throw (Thrown ''boom''), Dispose 3] else [])"



definition first_switches_back :: "cb_id \<Rightarrow> string \<Rightarrow> (intl_config, nat) action list" where
  "first_switches_back callback locale =
     (if callback = 1
      then [Inspect (\<lambda>m. if currentLocale m = ''en-US'' then [] else [CallSetLocale ''en-US''])]
      else [])"




text \<open>
  A compiled message that produces two literal parts, an element and a literal, and
  a resolver that returns it.
\<close>

definition greeting_parts :: "nat format_part list" where
  "greeting_parts =
     [LiteralPart ''Hello, '', LiteralPart ''world'',
      ObjectPart (JObj 7 ''[object Object]''), LiteralPart ''!'']"

definition greeting :: "(intl_config, nat, nat) template" where
  "greeting =
     \<lparr>tpl_formatToParts = (\<lambda>i bindings. Inr greeting_parts),
      tpl_formatToPlainString = (\<lambda>i bindings. Inr ''Hello, world!'')\<rparr>"

definition greeting_resolver :: "string \<Rightarrow> js_error + (intl_config, nat, nat) resolved" where
  "greeting_resolver locale = Inr (ResolvedTemplate greeting)"

text \<open>
  A compiled message that shows the bindings it is given for \<open>b\<close> and \<open>i\<close>
  (0 for a key that is not bound), and a resolver that returns it.
\<close>

definition bindings_probe :: "(intl_config, nat, nat) template" where
  "bindings_probe =
     \<lparr>tpl_formatToParts =
        (\<lambda>i bindings.
           Inr [ObjectPart (JObj (case bindings ''b'' of None \<Rightarrow> 0 | Some v \<Rightarrow> v) ''b''),
                ObjectPart (JObj (case bindings ''i'' of None \<Rightarrow> 0 | Some v \<Rightarrow> v) ''i'')]),
      tpl_formatToPlainString = (\<lambda>i bindings. Inr [])\<rparr>"

definition probe_resolver :: "string \<Rightarrow> js_error + (intl_config, nat, nat) resolved" where
  "probe_resolver locale = Inr (ResolvedTemplate bindings_probe)"

text \<open>
  A message database that fails to parse \<open>/app/c.messages.js\<close>, fails to write
  the artifact of \<open>/app/e.messages.js\<close>, and records the path of every artifact
  it writes.
\<close>

definition failing_compiler :: "string list compiler" where
  "failing_compiler =
     \<lparr>isMessageDefinitionsFile =
        (\<lambda>p. js_substring p (int (length p) - 12) (int (length p)) = ''.messages.js''),
      processDefinitionsFile =
        (\<lambda>p db. if p = ''/app/c.messages.js'' then (Inl (Thrown ''parse error''), db)
                 else (Inr (), db)),
      precompile =
        (\<lambda>p locale out format db.
           if p = ''/app/e.messages.js'' then (Inl (Thrown ''write error''), db)
           else (Inr (), db @ [out]))\<rparr>"

definition empty_build :: "string list build" where
  "empty_build = \<lparr>database = [], debug_lines = [], console_errors = [], watching = None\<rparr>"

section \<open>Properties of the formatting methods\<close>

text \<open>
  C9. For a message \<open>M\<close> that is a string, \<open>formatToParts\<close> returns the one-element
  array \<open>[M]\<close>, and \<open>formatToPlainString\<close> and \<open>string\<close> return \<open>M\<close>, whatever the
  manager's state and the values passed: no resolver and no compiled message is
  called.
\<close>

theorem literal_message_fast_path:
  "formatToParts m (MsgString M) values = Inr [JStr M] \<and>
   formatToPlainString m (MsgString M) values = Inr M \<and>
   string' m (MsgString M) = Inr M"
  by (simp add: string'_def)

text \<open>
  C8. For every message and every bindings, \<open>formatToMarkdownString\<close> returns what
  \<open>formatToPlainString\<close> returns on the same inputs, the thrown error included.
\<close>

theorem markdown_is_plain_string:
  "formatToMarkdownString m message values = formatToPlainString m message values"
  by (cases message) simp_all

text \<open>
  C10. For a message that is not a string, \<open>formatToPlainString\<close> and
  \<open>formatToMarkdownString\<close> call it with the current locale, with no test of its
  type: a function's result decides the outcome, and a compiled message passed
  directly is not callable, so both raise a \<open>TypeError\<close>. \<open>formatToParts\<close> calls
  the message only when it is a function, and formats a compiled message passed
  directly.
\<close>

theorem string_projections_call_the_message:
  "formatToPlainString m (MsgFunction f) values =
     (case f (currentLocale m) of
        Inl e \<Rightarrow> Inl e
      | Inr (ResolvedString s) \<Rightarrow> Inr s
      | Inr (ResolvedTemplate t') \<Rightarrow> tpl_formatToPlainString t' (intl m) values) \<and>
   formatToMarkdownString m (MsgFunction f) values =
     (case f (currentLocale m) of
        Inl e \<Rightarrow> Inl e
      | Inr (ResolvedString s) \<Rightarrow> Inr s
      | Inr (ResolvedTemplate t') \<Rightarrow> tpl_formatToPlainString t' (intl m) values) \<and>
   formatToPlainString m (MsgObject t) values = Inl (TypeError ''message is not a function'') \<and>
   formatToMarkdownString m (MsgObject t) values = Inl (TypeError ''message is not a function'') \<and>
   formatToParts m (MsgObject t) values =
     (case tpl_formatToParts t (intl m) (resolvedValues m values) of
        Inl e \<Rightarrow> Inl e
      | Inr parts \<Rightarrow> Inr (merge_literals [] False parts))"
  by simp

text \<open>
  C3. For every default rich-element map \<open>D\<close> (the manager's
  \<open>defaultRichTextElements\<close>) and every bindings \<open>V\<close> the caller passes,
  \<open>formatToParts\<close> gives the compiled message the bindings \<open>D\<close> overridden by \<open>V\<close>:
  every key of \<open>V\<close> has the caller's value, every other key has what \<open>D\<close> has for it.
  This holds for a compiled message passed directly and for one a resolver returns.
\<close>

theorem effective_bindings_override_defaults:
  "resolvedValues m (Some V) = defaultRichTextElements m ++ V \<and>
   (\<forall>k\<in>dom V. resolvedValues m (Some V) k = V k) \<and>
   (\<forall>k. k \<notin> dom V \<longrightarrow> resolvedValues m (Some V) k = defaultRichTextElements m k) \<and>
   formatToParts m (MsgObject t) (Some V) =
     (case tpl_formatToParts t (intl m) (defaultRichTextElements m ++ V) of
        Inl e \<Rightarrow> Inl e
      | Inr parts \<Rightarrow> Inr (merge_literals [] False parts)) \<and>
   (f (currentLocale m) = Inr (ResolvedTemplate t) \<longrightarrow>
      formatToParts m (MsgFunction f) (Some V) =
        (case tpl_formatToParts t (intl m) (defaultRichTextElements m ++ V) of
           Inl e \<Rightarrow> Inl e
         | Inr parts \<Rightarrow> Inr (merge_literals [] False parts)))"
proof -
  have eq: "resolvedValues m (Some V) = defaultRichTextElements m ++ V"
    by (simp add: resolvedValues_def)
  have caller: "\<forall>k\<in>dom V. resolvedValues m (Some V) k = V k"
    unfolding eq by (auto simp: map_add_dom_app_simps)
  have default: "\<forall>k. k \<notin> dom V \<longrightarrow> resolvedValues m (Some V) k = defaultRichTextElements m k"
    unfolding eq by (simp add: map_add_dom_app_simps)
  show ?thesis
    using caller default by (simp add: eq)
qed

theorem effective_bindings_override_defaults_witness:
  "resolvedValues two_subscribers (Some [''i'' \<mapsto> 2]) ''b'' = Some 1 \<and>
   resolvedValues two_subscribers (Some [''i'' \<mapsto> 2]) ''i'' = Some 2 \<and>
   resolvedValues two_subscribers (Some [''b'' \<mapsto> 3]) ''b'' = Some 3 \<and>
   dom (resolvedValues two_subscribers (Some [''b'' \<mapsto> 3])) = {''b''} \<and>
   formatToParts two_subscribers (MsgObject bindings_probe) (Some [''i'' \<mapsto> 2]) =
     Inr [JObj 1 ''b'', JObj 2 ''i''] \<and>
   formatToParts two_subscribers (MsgFunction probe_resolver) (Some [''b'' \<mapsto> 3]) =
     Inr [JObj 3 ''b'', JObj 0 ''i'']"
proof -
  have resolved: "probe_resolver (currentLocale two_subscribers) = Inr (ResolvedTemplate bindings_probe)"
    by (simp add: probe_resolver_def)
  show ?thesis
    using effective_bindings_override_defaults
        [of two_subscribers "[''i'' \<mapsto> 2]" bindings_probe probe_resolver]
      effective_bindings_override_defaults
        [of two_subscribers "[''b'' \<mapsto> 3]" bindings_probe probe_resolver]
      resolved
    by (simp add: two_subscribers_def bindings_probe_def)
qed

subsection \<open>The coalescing loop\<close>

lemma append_to_last_snoc:
  "append_to_last (xs @ [v]) s = xs @ [JStr (js_toString v @ s)]"
proof (induction xs)
  case Nil
  show ?case by simp
next
  case (Cons x xs)
  then show ?case by (cases xs) simp_all
qed

lemma run_entry_literal:
  "run_entry (LiteralPart s # takeWhile is_literal ps) =
     JStr (s @ concat (map (\<lambda>p. js_toString (part_value p)) (takeWhile is_literal ps)))"
  by (cases "takeWhile is_literal ps") simp_all

lemma merge_literals_runs:
  "merge_literals result False ps = result @ map run_entry (literal_runs ps) \<and>
   merge_literals (result @ [JStr a]) True ps =
     result @ JStr (a @ concat (map (\<lambda>p. js_toString (part_value p)) (takeWhile is_literal ps)))
            # map run_entry (literal_runs (dropWhile is_literal ps))"
proof (induction ps arbitrary: result a)
  case Nil
  show ?case by simp
next
  case (Cons p ps)
  show ?case
  proof (cases p)
    case (LiteralPart s)
    have f: "merge_literals result False (p # ps) = result @ map run_entry (literal_runs (p # ps))"
      using Cons.IH [of result s] LiteralPart by (simp add: run_entry_literal del: run_entry.simps)
    have t: "merge_literals (result @ [JStr a]) True (p # ps) =
       result @ JStr (a @ concat (map (\<lambda>p. js_toString (part_value p)) (takeWhile is_literal (p # ps))))
            # map run_entry (literal_runs (dropWhile is_literal (p # ps)))"
      using Cons.IH [of result "a @ s"] LiteralPart by (simp add: append_to_last_snoc)
    from f t show ?thesis by blast
  next
    case (ObjectPart v)
    have f: "merge_literals result False (p # ps) = result @ map run_entry (literal_runs (p # ps))"
      using Cons.IH [of "result @ [v]"] ObjectPart by simp
    have t: "merge_literals (result @ [JStr a]) True (p # ps) =
       result @ JStr (a @ concat (map (\<lambda>p. js_toString (part_value p)) (takeWhile is_literal (p # ps))))
            # map run_entry (literal_runs (dropWhile is_literal (p # ps)))"
      using Cons.IH [of "result @ [JStr a, v]"] ObjectPart by simp
    from f t show ?thesis by blast
  qed
qed

lemma concat_literal_runs: "concat (literal_runs ps) = ps"
  by (induction ps rule: literal_runs.induct) simp_all

lemma literal_runs_shapes:
  "g \<in> set (literal_runs ps) \<Longrightarrow> is_literal_run g \<or> (\<exists>v. g = [ObjectPart v])"
proof (induction ps rule: literal_runs.induct)
  case 1
  then show ?case by simp
next
  case (2 v ps)
  then show ?case by auto
next
  case (3 s ps)
  have "list_all is_literal (takeWhile is_literal ps)"
    unfolding list_all_iff by (auto dest: set_takeWhileD)
  then have "is_literal_run (LiteralPart s # takeWhile is_literal ps)"
    by (simp add: is_literal_run_def)
  with 3 show ?case by auto
qed

lemma literal_runs_first:
  "literal_runs ps = g # gs \<Longrightarrow> ps \<noteq> [] \<and> hd g = hd ps \<and> g \<noteq> []"
  by (cases ps rule: literal_runs.cases) auto

lemma literal_run_hd: "is_literal_run g \<Longrightarrow> is_literal (hd g)"
  by (cases g) (simp_all add: is_literal_run_def)

lemma literal_runs_not_adjacent: "\<not> adjacent_literal_runs (literal_runs ps)"
proof (induction ps rule: literal_runs.induct)
  case 1
  show ?case by simp
next
  case (2 v ps)
  have "\<not> is_literal_run [ObjectPart v]" by (simp add: is_literal_run_def)
  with 2 show ?case by (cases "literal_runs ps") simp_all
next
  case (3 s ps)
  show ?case
  proof (cases "literal_runs (dropWhile is_literal ps)")
    case Nil
    then show ?thesis by simp
  next
    case (Cons h hs)
    then have ne: "dropWhile is_literal ps \<noteq> []" and hd: "hd h = hd (dropWhile is_literal ps)"
      using literal_runs_first by blast+
    from ne have "\<not> is_literal (hd (dropWhile is_literal ps))"
      by (rule hd_dropWhile)
    with hd have "\<not> is_literal_run h"
      using literal_run_hd by metis
    with 3 Cons show ?thesis by simp
  qed
qed

lemma literal_runs_begin: "literal_runs (p # ps) \<noteq> [] \<and> hd (hd (literal_runs (p # ps))) = p"
  by (cases p) simp_all

text \<open>
  C2. For every message that resolves to a compiled message, passed directly or
  returned by a resolver function, and whatever parts the compiled message
  produces, the result of \<open>formatToParts\<close> has one entry for each group of
  \<open>literal_runs\<close>, in order: the groups split the parts where they stand, a group
  is a run of literal parts or one part that is not literal, and no two neighbouring
  groups are both literal runs. So no two adjacent entries both come from literal
  parts, and no entry joins literal parts across a part that is not literal. The
  first group begins with the first part: the first part is joined to nothing before
  it.
\<close>

theorem coalescing_never_leaves_adjacent_literals:
  assumes "resolvedMessage m message = Inr (ResolvedTemplate t)"
    and "tpl_formatToParts t (intl m) (resolvedValues m values) = Inr parts"
  shows "formatToParts m message values = Inr (map run_entry (literal_runs parts)) \<and>
         concat (literal_runs parts) = parts \<and>
         (\<forall>g\<in>set (literal_runs parts). is_literal_run g \<or> (\<exists>v. g = [ObjectPart v])) \<and>
         \<not> adjacent_literal_runs (literal_runs parts) \<and>
         (\<forall>p ps. parts = p # ps \<longrightarrow>
            literal_runs parts \<noteq> [] \<and> hd (hd (literal_runs parts)) = p)"
proof -
  have merged: "merge_literals [] False parts = map run_entry (literal_runs parts)"
    using merge_literals_runs [of "[]" parts] by simp
  have "formatToParts m message values = Inr (map run_entry (literal_runs parts))"
    using assms merged by (cases message) simp_all
  then show ?thesis
    using concat_literal_runs [of parts] literal_runs_shapes [of _ parts]
      literal_runs_not_adjacent [of parts] literal_runs_begin
    by blast
qed

theorem coalescing_never_leaves_adjacent_literals_witness:
  "formatToParts two_subscribers (MsgFunction greeting_resolver) None =
     Inr [JStr ''Hello, world'', JObj 7 ''[object Object]'', JStr ''!''] \<and>
   formatToParts two_subscribers (MsgObject greeting) None =
     Inr [JStr ''Hello, world'', JObj 7 ''[object Object]'', JStr ''!''] \<and>
   literal_runs greeting_parts =
     [[LiteralPart ''Hello, '', LiteralPart ''world''],
      [ObjectPart (JObj 7 ''[object Object]'')], [LiteralPart ''!'']] \<and>
   \<not> adjacent_literal_runs (literal_runs greeting_parts)"
proof -
  have resolved: "resolvedMessage two_subscribers (MsgFunction greeting_resolver) =
                    Inr (ResolvedTemplate greeting)"
    by (simp add: greeting_resolver_def)
  have direct: "resolvedMessage two_subscribers (MsgObject greeting) =
                  Inr (ResolvedTemplate greeting)"
    by simp
  have parts: "tpl_formatToParts greeting (intl two_subscribers)
                 (resolvedValues two_subscribers None) = Inr greeting_parts"
    by (simp add: greeting_def)
  have runs: "literal_runs greeting_parts =
     [[LiteralPart ''Hello, '', LiteralPart ''world''],
      [ObjectPart (JObj 7 ''[object Object]'')], [LiteralPart ''!'']]"
    by (simp add: greeting_parts_def)
  show ?thesis
    using coalescing_never_leaves_adjacent_literals [OF resolved parts]
      coalescing_never_leaves_adjacent_literals [OF direct parts] runs
    by simp
qed

section \<open>Properties of the locale and its subscribers\<close>

subsection \<open>Running the methods and the subscribers\<close>

lemma run_SetLocale:
  "run createIntl prog (SetLocale locale) s =
     (case createIntl \<lparr>cfg_formats = False, cfg_defaultLocale = defaultLocale (mgr s),
                       cfg_locale = locale\<rparr> of
        Inl e \<Rightarrow> Some (Inl e, s\<lparr>mgr := (mgr s)\<lparr>currentLocale := locale\<rparr>\<rparr>)
      | Inr i \<Rightarrow>
          run createIntl prog (EmitLocaleChange locale 0)
            (s\<lparr>mgr := (mgr s)\<lparr>currentLocale := locale, intl := i\<rparr>\<rparr>))"
  by (subst run.simps) (simp add: Let_def)

lemma run_EmitLocaleChange:
  "run createIntl prog (EmitLocaleChange locale i) s =
     (if i < length (localeSubscriptions (mgr s)) then
        (case localeSubscriptions (mgr s) ! i of
           None \<Rightarrow> run createIntl prog (EmitLocaleChange locale (Suc i)) s
         | Some callback \<Rightarrow>
             Option.bind
               (run createIntl prog (Body (prog callback locale))
                  (s\<lparr>calls := calls s @ [(callback, locale)]\<rparr>))
               (\<lambda>(r, s').
                  case r of
                    Inl e \<Rightarrow> Some (Inl e, s')
                  | Inr u \<Rightarrow> run createIntl prog (EmitLocaleChange locale (Suc i)) s'))
      else Some (Inr (), s))"
  by (subst run.simps) simp

lemma run_Body_Nil: "run createIntl prog (Body []) s = Some (Inr (), s)"
  by (subst run.simps) simp

lemma run_Body_Cons:
  "run createIntl prog (Body (a # actions)) s =
     (case kind_of a of
        Throws e \<Rightarrow> Some (Inl e, s)
      | Calls callee \<Rightarrow>
          Option.bind (run createIntl prog callee s)
            (\<lambda>(r, s').
               case r of
                 Inl e \<Rightarrow> Some (Inl e, s')
               | Inr u \<Rightarrow> run createIntl prog (Body actions) s')
      | Steps f \<Rightarrow>
          run createIntl prog (Body (snd (f (mgr s)) @ actions))
            (s\<lparr>mgr := fst (f (mgr s))\<rparr>))"
  by (subst run.simps) simp

lemma steps_locale:
  "kind_of a = Steps f \<Longrightarrow> locale_ok Q a \<Longrightarrow> Q (currentLocale m) \<Longrightarrow>
     Q (currentLocale (fst (f m))) \<and> (\<forall>b\<in>set (snd (f m)). locale_ok Q b)"
  by (cases a) (auto simp: onLocaleChange_def dispose_def list_all_iff)

lemma calls_locale:
  "kind_of a = Calls callee \<Longrightarrow> locale_ok Q a \<Longrightarrow>
     (\<exists>l. callee = SetLocale l \<and> Q l) \<or> (\<exists>l. callee = EmitLocaleChange l 0)"
  by (cases a) auto

lemma steps_calls_nothing:
  "kind_of a = Steps f \<Longrightarrow> calls_nothing a \<Longrightarrow> \<forall>b\<in>set (snd (f m)). calls_nothing b"
  by (cases a) (auto simp: list_all_iff)

lemma calls_nothing_no_call: "kind_of a = Calls callee \<Longrightarrow> \<not> calls_nothing a"
  by (cases a) auto

lemma run_locale_invariant:
  "run createIntl prog what s = Some y \<Longrightarrow>
     (\<forall>c l. \<forall>a\<in>set (prog c l). locale_ok Q a) \<longrightarrow>
     (case what of
        SetLocale l \<Rightarrow> Q l
      | EmitLocaleChange l i \<Rightarrow> Q (currentLocale (mgr s))
      | Body body \<Rightarrow> Q (currentLocale (mgr s)) \<and> (\<forall>a\<in>set body. locale_ok Q a)) \<longrightarrow>
     Q (currentLocale (mgr (snd y)))"
proof (induction rule: run.raw_induct[rotated 1, consumes 1])
  case (1 run' createIntl prog what s y)
  show ?case
  proof (intro impI)
    assume ok: "\<forall>c l. \<forall>a\<in>set (prog c l). locale_ok Q a"
    assume pre: "case what of
        SetLocale l \<Rightarrow> Q l
      | EmitLocaleChange l i \<Rightarrow> Q (currentLocale (mgr s))
      | Body body \<Rightarrow> Q (currentLocale (mgr s)) \<and> (\<forall>a\<in>set body. locale_ok Q a)"
    note IH = 1(1)
    note eq = 1(2)
    show "Q (currentLocale (mgr (snd y)))"
    proof (cases what)
      case (SetLocale l)
      with pre have Ql: "Q l" by simp
      let ?cfg = "\<lparr>cfg_formats = False, cfg_defaultLocale = defaultLocale (mgr s), cfg_locale = l\<rparr>"
      show ?thesis
      proof (cases "createIntl ?cfg")
        case (Inl e)
        with eq SetLocale have "y = (Inl e, s\<lparr>mgr := (mgr s)\<lparr>currentLocale := l\<rparr>\<rparr>)"
          by (simp add: Let_def)
        with Ql show ?thesis by simp
      next
        case (Inr i)
        let ?s = "s\<lparr>mgr := (mgr s)\<lparr>currentLocale := l, intl := i\<rparr>\<rparr>"
        from eq SetLocale Inr have "run' createIntl prog (EmitLocaleChange l 0) ?s = Some y"
          by (simp add: Let_def)
        from IH [OF this] ok Ql show ?thesis by simp
      qed
    next
      case (EmitLocaleChange l i)
      with pre have Qs: "Q (currentLocale (mgr s))" by simp
      show ?thesis
      proof (cases "i < length (localeSubscriptions (mgr s))")
        case False
        with eq EmitLocaleChange have "y = (Inr (), s)" by simp
        with Qs show ?thesis by simp
      next
        case True
        show ?thesis
        proof (cases "localeSubscriptions (mgr s) ! i")
          case None
          with eq EmitLocaleChange True
          have "run' createIntl prog (EmitLocaleChange l (Suc i)) s = Some y" by simp
          from IH [OF this] ok Qs show ?thesis by simp
        next
          case (Some c)
          let ?s = "s\<lparr>calls := calls s @ [(c, l)]\<rparr>"
          from eq EmitLocaleChange True Some
          obtain r s' where body: "run' createIntl prog (Body (prog c l)) ?s = Some (r, s')"
            and after: "(case r of Inl e \<Rightarrow> Some (Inl e, s')
                         | Inr u \<Rightarrow> run' createIntl prog (EmitLocaleChange l (Suc i)) s') = Some y"
            by (auto simp: bind_eq_Some_conv)
          from IH [OF body] ok Qs have Qs': "Q (currentLocale (mgr s'))" by simp
          show ?thesis
          proof (cases r)
            case (Inl e)
            with after have "y = (Inl e, s')" by simp
            with Qs' show ?thesis by simp
          next
            case (Inr u)
            with after have "run' createIntl prog (EmitLocaleChange l (Suc i)) s' = Some y" by simp
            from IH [OF this] ok Qs' show ?thesis by simp
          qed
        qed
      qed
    next
      case (Body body)
      with pre have Qs: "Q (currentLocale (mgr s))" and okb: "\<forall>a\<in>set body. locale_ok Q a"
        by simp_all
      show ?thesis
      proof (cases body)
        case Nil
        with eq Body have "y = (Inr (), s)" by simp
        with Qs show ?thesis by simp
      next
        case (Cons a rest)
        from okb Cons have oka: "locale_ok Q a" and okr: "\<forall>a\<in>set rest. locale_ok Q a"
          by simp_all
        show ?thesis
        proof (cases "kind_of a")
          case (Throws e)
          with eq Body Cons have "y = (Inl e, s)" by simp
          with Qs show ?thesis by simp
        next
          case (Calls callee)
          from eq Body Cons Calls
          obtain r s' where called: "run' createIntl prog callee s = Some (r, s')"
            and after: "(case r of Inl e \<Rightarrow> Some (Inl e, s')
                         | Inr u \<Rightarrow> run' createIntl prog (Body rest) s') = Some y"
            by (auto simp: bind_eq_Some_conv)
          have "case callee of
                  SetLocale l \<Rightarrow> Q l
                | EmitLocaleChange l i \<Rightarrow> Q (currentLocale (mgr s))
                | Body body \<Rightarrow> Q (currentLocale (mgr s)) \<and> (\<forall>a\<in>set body. locale_ok Q a)"
            using calls_locale [OF Calls oka] Qs by auto
          with IH [OF called] ok have Qs': "Q (currentLocale (mgr s'))" by simp
          show ?thesis
          proof (cases r)
            case (Inl e)
            with after have "y = (Inl e, s')" by simp
            with Qs' show ?thesis by simp
          next
            case (Inr u)
            with after have "run' createIntl prog (Body rest) s' = Some y" by simp
            from IH [OF this] ok Qs' okr show ?thesis by simp
          qed
        next
          case (Steps f)
          let ?s = "s\<lparr>mgr := fst (f (mgr s))\<rparr>"
          from eq Body Cons Steps
          have "run' createIntl prog (Body (snd (f (mgr s)) @ rest)) ?s = Some y" by simp
          moreover have "Q (currentLocale (mgr ?s))"
            and "\<forall>b\<in>set (snd (f (mgr s)) @ rest). locale_ok Q b"
            using steps_locale [OF Steps oka Qs] okr by auto
          ultimately show ?thesis
            using IH ok by simp
        qed
      qed
    qed
  qed
qed

lemma run_Body_calls_nothing:
  "run createIntl prog what s = Some y \<Longrightarrow>
     (case what of
        Body body \<Rightarrow>
          (\<forall>a\<in>set body. calls_nothing a) \<longrightarrow>
            calls (snd y) = calls s \<and>
            ((\<forall>a\<in>set body. locale_ok Q a) \<and> Q (currentLocale (mgr s)) \<longrightarrow>
               Q (currentLocale (mgr (snd y))))
      | _ \<Rightarrow> True)"
proof (induction rule: run.raw_induct[rotated 1, consumes 1])
  case (1 run' createIntl prog what s y)
  note IH = 1(1)
  note eq = 1(2)
  show ?case
  proof (cases what)
    case (SetLocale l)
    then show ?thesis by simp
  next
    case (EmitLocaleChange l i)
    then show ?thesis by simp
  next
    case (Body body)
    have "calls (snd y) = calls s \<and>
            ((\<forall>a\<in>set body. locale_ok Q a) \<and> Q (currentLocale (mgr s)) \<longrightarrow>
               Q (currentLocale (mgr (snd y))))"
      if quiet: "\<forall>a\<in>set body. calls_nothing a"
    proof (cases body)
      case Nil
      with eq Body have "y = (Inr (), s)" by simp
      then show ?thesis by simp
    next
      case (Cons a rest)
      from quiet Cons have qa: "calls_nothing a" and qr: "\<forall>a\<in>set rest. calls_nothing a"
        by simp_all
      show ?thesis
      proof (cases "kind_of a")
        case (Throws e)
        with eq Body Cons have "y = (Inl e, s)" by simp
        then show ?thesis by simp
      next
        case (Calls callee)
        with qa show ?thesis by (simp add: calls_nothing_no_call)
      next
        case (Steps f)
        let ?s = "s\<lparr>mgr := fst (f (mgr s))\<rparr>"
        let ?body = "snd (f (mgr s)) @ rest"
        from eq Body Cons Steps
        have ran: "run' createIntl prog (Body ?body) ?s = Some y" by simp
        have q': "\<forall>b\<in>set ?body. calls_nothing b"
          using steps_calls_nothing [OF Steps qa] qr by auto
        from IH [OF ran] q'
        have calls: "calls (snd y) = calls s"
          and loc: "(\<forall>a\<in>set ?body. locale_ok Q a) \<and> Q (currentLocale (mgr ?s)) \<longrightarrow>
               Q (currentLocale (mgr (snd y)))"
          by simp_all
        have "Q (currentLocale (mgr (snd y)))"
          if ok: "\<forall>a\<in>set body. locale_ok Q a" and Qs: "Q (currentLocale (mgr s))"
        proof -
          from ok Cons have oka: "locale_ok Q a" and okr: "\<forall>a\<in>set rest. locale_ok Q a"
            by simp_all
          have "Q (currentLocale (mgr ?s))" and "\<forall>b\<in>set ?body. locale_ok Q b"
            using steps_locale [OF Steps oka Qs] okr by auto
          with loc show ?thesis by blast
        qed
        with calls show ?thesis by blast
      qed
    qed
    with Body show ?thesis by simp
  qed
qed

subsection \<open>The set of subscribers during a notification\<close>

lemma set_values_iff: "c \<in> set (set_values es) \<longleftrightarrow> Some c \<in> set es"
  by (induction es rule: set_values.induct) auto

lemma set_values_append: "set_values (xs @ ys) = set_values xs @ set_values ys"
  by (induction xs rule: set_values.induct) simp_all











lemma set_values_set_add:
  "set_values (set_add c es) =
     (if c \<in> set (set_values es) then set_values es else set_values es @ [c])"
  by (simp add: set_add_def set_values_iff set_values_append)

lemma set_values_set_delete: "set_values (set_delete c es) = removeAll c (set_values es)"
  by (induction es rule: set_values.induct) (auto simp: set_delete_def)

lemma distinct_set_add:
  "distinct (set_values es) \<Longrightarrow> distinct (set_values (set_add c es))"
  by (simp add: set_values_set_add)

lemma distinct_set_delete:
  "distinct (set_values es) \<Longrightarrow> distinct (set_values (set_delete c es))"
  by (simp add: set_values_set_delete distinct_removeAll)

lemma subscriptions_stay_distinct:
  "distinct (set_values (localeSubscriptions m)) \<Longrightarrow>
     distinct (set_values (localeSubscriptions (onLocaleChange c m))) \<and>
     distinct (set_values (localeSubscriptions (dispose c m)))"
  by (simp add: onLocaleChange_def dispose_def distinct_set_add distinct_set_delete)

lemma registration_order:
  "set_values (localeSubscriptions (onLocaleChange c m)) =
     (if c \<in> set (set_values (localeSubscriptions m))
      then set_values (localeSubscriptions m)
      else set_values (localeSubscriptions m) @ [c])"
  by (simp add: onLocaleChange_def set_values_set_add)

subsection \<open>The notification loop\<close>





lemma pending_kept_length: "pending_kept E0 k E \<Longrightarrow> length E0 \<le> length E"
  unfolding pending_kept_def by blast







lemma emit_skips_returning:
  assumes "localeSubscriptions (mgr s) = before @ earlier @ rest"
    and "\<forall>b. Some b \<in> set earlier \<longrightarrow> prog b L = []"
  shows "run createIntl prog (EmitLocaleChange L (length before)) s =
         run createIntl prog (EmitLocaleChange L (length before + length earlier))
           (s\<lparr>calls := calls s @ map (\<lambda>b. (b, L)) (set_values earlier)\<rparr>)"
  using assms
proof (induction earlier arbitrary: before s)
  case Nil
  then show ?case by simp
next
  case (Cons x earlier)
  have at: "localeSubscriptions (mgr s) ! length before = x"
    using Cons.prems(1) by simp
  have lt: "length before < length (localeSubscriptions (mgr s))"
    using Cons.prems(1) by simp
  show ?case
  proof (cases x)
    case None
    have "run createIntl prog (EmitLocaleChange L (length (before @ [x]))) s =
          run createIntl prog (EmitLocaleChange L (length (before @ [x]) + length earlier))
            (s\<lparr>calls := calls s @ map (\<lambda>b. (b, L)) (set_values earlier)\<rparr>)"
      using Cons.prems by (intro Cons.IH) auto
    with None at lt show ?thesis
      by (simp add: run_EmitLocaleChange [of _ _ _ "length before"])
  next
    case (Some b)
    let ?t = "s\<lparr>calls := calls s @ [(b, L)]\<rparr>"
    have body: "prog b L = []"
      using Cons.prems(2) Some by simp
    have "run createIntl prog (EmitLocaleChange L (length (before @ [x]))) ?t =
          run createIntl prog (EmitLocaleChange L (length (before @ [x]) + length earlier))
            (?t\<lparr>calls := calls ?t @ map (\<lambda>b. (b, L)) (set_values earlier)\<rparr>)"
      using Cons.prems by (intro Cons.IH) auto
    with Some at lt body show ?thesis
      by (simp add: run_EmitLocaleChange [of _ _ _ "length before"] run_Body_Nil)
  qed
qed

lemma emit_throwing_subscriber:
  "i < length (localeSubscriptions (mgr s)) \<Longrightarrow> localeSubscriptions (mgr s) ! i = Some c \<Longrightarrow>
     run createIntl prog (Body (prog c L)) (s\<lparr>calls := calls s @ [(c, L)]\<rparr>) = Some (Inl e, s') \<Longrightarrow>
     run createIntl prog (EmitLocaleChange L i) s = Some (Inl e, s')"
  by (simp add: run_EmitLocaleChange)

subsection \<open>What \<open>setLocale\<close> guarantees\<close>


lemmas example_runs =
  setLocale_def emitLocaleChange_def run_SetLocale run_EmitLocaleChange run_Body_Nil
  run_Body_Cons plain_createIntl_def two_subscribers_def three_subscribers_def
  onLocaleChange_def dispose_def set_add_def set_delete_def



text \<open>
  C1, as amended. A subscriber that throws during the notification of
  \<open>setLocale(L)\<close> ends it: when \<open>createIntl\<close> succeeds, the subscribers before it
  do nothing but return, and it throws \<open>e\<close>, then \<open>setLocale\<close> throws \<open>e\<close> in the
  state in which the subscriber threw, and calls no subscriber after that. If the
  subscriber that throws is one that never calls \<open>setLocale\<close> or
  \<open>emitLocaleChange\<close> itself, the calls made are those to the subscribers before
  it and to itself, in order, and none of the subscribers registered after it is
  called; if it also never assigns another locale to \<open>currentLocale\<close>, then
  \<open>currentLocale\<close> is already \<open>L\<close>.
\<close>

theorem throwing_subscriber_stops_notification:
  assumes created: "createIntl \<lparr>cfg_formats = False, cfg_defaultLocale = defaultLocale (mgr s),
                                 cfg_locale = L\<rparr> = Inr i"
    and subs: "localeSubscriptions (mgr s) = earlier @ Some c # later"
    and earlier: "\<forall>b. Some b \<in> set earlier \<longrightarrow> prog b L = []"
    and throws: "run createIntl prog (Body (prog c L))
                   \<lparr>mgr = (mgr s)\<lparr>currentLocale := L, intl := i\<rparr>,
                    calls = calls s @ map (\<lambda>b. (b, L)) (set_values earlier @ [c])\<rparr> =
                   Some (Inl e, s')"
    and once: "distinct (set_values (localeSubscriptions (mgr s)))"
  shows "setLocale createIntl prog L s = Some (Inl e, s') \<and>
         ((\<forall>a\<in>set (prog c L). calls_nothing a) \<longrightarrow>
            calls s' = calls s @ map (\<lambda>b. (b, L)) (set_values earlier @ [c]) \<and>
            (\<forall>d\<in>set (set_values later).
               (d, L) \<notin> set (drop (length (calls s)) (calls s')))) \<and>
         ((\<forall>a\<in>set (prog c L). calls_nothing a \<and> locale_ok (\<lambda>l. l = L) a) \<longrightarrow>
            currentLocale (mgr s') = L)"
proof -
  let ?s0 = "s\<lparr>mgr := (mgr s)\<lparr>currentLocale := L, intl := i\<rparr>\<rparr>"
  let ?s1 = "?s0\<lparr>calls := calls ?s0 @ map (\<lambda>b. (b, L)) (set_values earlier)\<rparr>"
  let ?s2 = "\<lparr>mgr = (mgr s)\<lparr>currentLocale := L, intl := i\<rparr>,
              calls = calls s @ map (\<lambda>b. (b, L)) (set_values earlier @ [c])\<rparr>"
  have es: "localeSubscriptions (mgr ?s0) = [] @ earlier @ Some c # later"
    using subs by simp
  have "run createIntl prog (EmitLocaleChange L (length ([] :: cb_id option list))) ?s0 =
        run createIntl prog (EmitLocaleChange L (length ([] :: cb_id option list) + length earlier)) ?s1"
    using es earlier by (rule emit_skips_returning)
  then have skipped: "run createIntl prog (EmitLocaleChange L 0) ?s0 =
      run createIntl prog (EmitLocaleChange L (length earlier)) ?s1"
    by simp
  have reached: "?s1\<lparr>calls := calls ?s1 @ [(c, L)]\<rparr> = ?s2"
    by (cases s) simp
  have "run createIntl prog (Body (prog c L)) (?s1\<lparr>calls := calls ?s1 @ [(c, L)]\<rparr>) =
      Some (Inl e, s')"
    unfolding reached by (rule throws)
  with subs have "run createIntl prog (EmitLocaleChange L (length earlier)) ?s1 = Some (Inl e, s')"
    by (intro emit_throwing_subscriber [where c = c]) simp_all
  with skipped created have res: "setLocale createIntl prog L s = Some (Inl e, s')"
    by (simp add: setLocale_def run_SetLocale)
  have apart: "distinct (set_values earlier @ c # set_values later)"
    using once subs by (simp add: set_values_append)
  have quiet: "calls s' = calls s @ map (\<lambda>b. (b, L)) (set_values earlier @ [c])"
    if "\<forall>a\<in>set (prog c L). calls_nothing a"
    using run_Body_calls_nothing [OF throws, of "\<lambda>l. True"] that by simp
  have later: "\<forall>d\<in>set (set_values later). (d, L) \<notin> set (drop (length (calls s)) (calls s'))"
    if "\<forall>a\<in>set (prog c L). calls_nothing a"
    using quiet [OF that] apart by auto
  have loc: "currentLocale (mgr s') = L"
    if "\<forall>a\<in>set (prog c L). calls_nothing a \<and> locale_ok (\<lambda>l. l = L) a"
    using run_Body_calls_nothing [OF throws, of "\<lambda>l. l = L"] that by simp
  from res quiet later loc show ?thesis by blast
qed

theorem throwing_subscriber_stops_notification_witness:
  "setLocale plain_createIntl second_throws ''fr'' \<lparr>mgr = three_subscribers, calls = []\<rparr> =
     Some (Inl (Thrown ''boom''),
       \<lparr>mgr = three_subscribers
          \<lparr>currentLocale := ''fr'',
           intl := \<lparr>cfg_formats = False, cfg_defaultLocale = ''en-US'', cfg_locale = ''fr''\<rparr>,
           localeSubscriptions := [None, None, Some 2, Some 3]\<rparr>,
        calls = [(1, ''fr''), (2, ''fr'')]\<rparr>) \<and>
   (3 :: nat, ''fr'') \<notin> set (drop (length ([] :: (nat \<times> string) list)) [(1, ''fr''), (2, ''fr'')])"
proof -
  let ?s = "\<lparr>mgr = three_subscribers, calls = []\<rparr>"
  let ?i = "\<lparr>cfg_formats = False, cfg_defaultLocale = ''en-US'', cfg_locale = ''fr''\<rparr>"
  let ?s' = "\<lparr>mgr = three_subscribers
          \<lparr>currentLocale := ''fr'', intl := ?i,
           localeSubscriptions := [None, None, Some 2, Some 3]\<rparr>,
        calls = [(1, ''fr''), (2, ''fr'')]\<rparr>"
  have created: "plain_createIntl \<lparr>cfg_formats = False,
      cfg_defaultLocale = defaultLocale (mgr ?s), cfg_locale = ''fr''\<rparr> = Inr ?i"
    by (simp add: plain_createIntl_def three_subscribers_def two_subscribers_def)
  have subs: "localeSubscriptions (mgr ?s) = [Some 1, None] @ Some 2 # [Some 3]"
    by (simp add: three_subscribers_def)
  have earlier: "\<forall>b. Some b \<in> set [Some 1, None] \<longrightarrow> second_throws b ''fr'' = []"
    by (simp add: second_throws_def)
  have throws: "run plain_createIntl second_throws (Body (second_throws 2 ''fr''))
                  \<lparr>mgr = (mgr ?s)\<lparr>currentLocale := ''fr'', intl := ?i\<rparr>,
                   calls = calls ?s @ map (\<lambda>b. (b, ''fr'')) (set_values [Some 1, None] @ [2])\<rparr> =
                  Some (Inl (Thrown ''boom''), ?s')"
    by (simp add: example_runs second_throws_def)
  have once: "distinct (set_values (localeSubscriptions (mgr ?s)))"
    by (simp add: three_subscribers_def)
  have quiet: "\<forall>a\<in>set (second_throws 2 ''fr''). calls_nothing a"
    by (simp add: second_throws_def)
  show ?thesis
    using throwing_subscriber_stops_notification
      [where createIntl = plain_createIntl and s = ?s and L = "''fr''" and i = ?i
         and earlier = "[Some 1, None]" and c = 2 and later = "[Some 3]"
         and prog = second_throws and e = "Thrown ''boom''" and s' = ?s',
       OF created subs earlier throws once]
      quiet
    by simp
qed

text \<open>
  The claim as stated fails: the first of two subscribers throws, \<open>setLocale\<close>
  throws what it threw, and the second subscriber is not called.
\<close>

theorem throwing_subscriber_blocks_later_subscribers:
  "setLocale plain_createIntl first_throws ''fr'' \<lparr>mgr = two_subscribers, calls = []\<rparr> =
     Some (Inl (Thrown ''boom''),
       \<lparr>mgr = two_subscribers
          \<lparr>currentLocale := ''fr'',
           intl := \<lparr>cfg_formats = False, cfg_defaultLocale = ''en-US'', cfg_locale = ''fr''\<rparr>\<rparr>,
        calls = [(1, ''fr'')]\<rparr>) \<and>
   set_values (localeSubscriptions two_subscribers) = [1, 2]"
  by (simp add: example_runs first_throws_def)

text \<open>
  C7, as amended. \<open>currentLocale\<close> is the locale last assigned, with no test that it
  is not empty. After construction it is \<open>en-US\<close> when no default locale is passed,
  and the default locale passed otherwise. After \<open>setLocale(L)\<close>, whether it returns
  or throws, it is \<open>L\<close> when no subscriber ever passes another locale to
  \<open>setLocale\<close> or assigns another locale to the field; and it is not empty when
  \<open>L\<close> is not empty and no subscriber ever passes an empty locale to \<open>setLocale\<close>
  or assigns one to the field. Under the same condition \<open>emitLocaleChange\<close> leaves
  it not empty when it was not empty. \<open>onLocaleChange\<close> and the disposers leave it
  as it is.
\<close>

theorem currentLocale_is_the_locale_last_set:
  "(new_IntlManager createIntl None elements = Inr m \<longrightarrow>
      currentLocale m = ''en-US'') \<and>
   (new_IntlManager createIntl (Some d) elements = Inr m \<longrightarrow> currentLocale m = d) \<and>
   ((\<forall>c l. \<forall>a\<in>set (prog c l). locale_ok (\<lambda>x. x = L) a) \<and>
      setLocale createIntl prog L s = Some (r, s') \<longrightarrow> currentLocale (mgr s') = L) \<and>
   (L \<noteq> [] \<and> (\<forall>c l. \<forall>a\<in>set (prog c l). locale_ok (\<lambda>x. x \<noteq> []) a) \<and>
      setLocale createIntl prog L s = Some (r, s') \<longrightarrow> currentLocale (mgr s') \<noteq> []) \<and>
   (currentLocale (mgr s) \<noteq> [] \<and> (\<forall>c l. \<forall>a\<in>set (prog c l). locale_ok (\<lambda>x. x \<noteq> []) a) \<and>
      emitLocaleChange createIntl prog L s = Some (r, s') \<longrightarrow> currentLocale (mgr s') \<noteq> []) \<and>
   currentLocale (onLocaleChange c m) = currentLocale m \<and>
   currentLocale (dispose c m) = currentLocale m"
proof -
  have a: "new_IntlManager createIntl None elements = Inr m \<longrightarrow> currentLocale m = ''en-US''"
    by (auto simp: new_IntlManager_def DEFAULT_LOCALE_def Let_def split: sum.splits)
  have b: "new_IntlManager createIntl (Some d) elements = Inr m \<longrightarrow> currentLocale m = d"
    by (auto simp: new_IntlManager_def Let_def split: sum.splits)
  have c: "(\<forall>c l. \<forall>a\<in>set (prog c l). locale_ok Q a) \<and> Q L \<and>
      setLocale createIntl prog L s = Some (r, s') \<longrightarrow> Q (currentLocale (mgr s'))" for Q
    using run_locale_invariant [of createIntl prog "SetLocale L" s "(r, s')" Q]
    by (simp add: setLocale_def)
  have d: "(\<forall>c l. \<forall>a\<in>set (prog c l). locale_ok Q a) \<and> Q (currentLocale (mgr s)) \<and>
      emitLocaleChange createIntl prog L s = Some (r, s') \<longrightarrow> Q (currentLocale (mgr s'))" for Q
    using run_locale_invariant [of createIntl prog "EmitLocaleChange L 0" s "(r, s')" Q]
    by (simp add: emitLocaleChange_def)
  show ?thesis
    using a b c [of "\<lambda>x. x = L"] c [of "\<lambda>x. x \<noteq> []"] d [of "\<lambda>x. x \<noteq> []"]
    by (simp add: onLocaleChange_def dispose_def)
qed

theorem currentLocale_is_the_locale_last_set_witness:
  "new_IntlManager plain_createIntl None (Map.empty :: string \<rightharpoonup> nat) =
     Inr \<lparr>defaultLocale = ''en-US'', currentLocale = ''en-US'',
          intl = \<lparr>cfg_formats = True, cfg_defaultLocale = ''en-US'', cfg_locale = ''en-US''\<rparr>,
          defaultRichTextElements = Map.empty, localeSubscriptions = []\<rparr> \<and>
   new_IntlManager plain_createIntl (Some ''ja'') (Map.empty :: string \<rightharpoonup> nat) =
     Inr \<lparr>defaultLocale = ''ja'', currentLocale = ''ja'',
          intl = \<lparr>cfg_formats = True, cfg_defaultLocale = ''ja'', cfg_locale = ''ja''\<rparr>,
          defaultRichTextElements = Map.empty, localeSubscriptions = []\<rparr> \<and>
   setLocale plain_createIntl first_switches_back ''en-US'' \<lparr>mgr = two_subscribers, calls = []\<rparr> =
     Some (Inr (),
       \<lparr>mgr = two_subscribers
          \<lparr>currentLocale := ''en-US'',
           intl := \<lparr>cfg_formats = False, cfg_defaultLocale = ''en-US'', cfg_locale = ''en-US''\<rparr>\<rparr>,
        calls = [(1, ''en-US''), (2, ''en-US'')]\<rparr>) \<and>
   setLocale plain_createIntl first_switches_back ''fr'' \<lparr>mgr = two_subscribers, calls = []\<rparr> =
     Some (Inr (),
       \<lparr>mgr = two_subscribers
          \<lparr>currentLocale := ''en-US'',
           intl := \<lparr>cfg_formats = False, cfg_defaultLocale = ''en-US'', cfg_locale = ''en-US''\<rparr>\<rparr>,
        calls = [(1, ''fr''), (1, ''en-US''), (2, ''en-US''), (2, ''fr'')]\<rparr>) \<and>
   emitLocaleChange plain_createIntl first_switches_back ''fr''
       \<lparr>mgr = two_subscribers\<lparr>currentLocale := ''de''\<rparr>, calls = []\<rparr> =
     Some (Inr (),
       \<lparr>mgr = two_subscribers
          \<lparr>currentLocale := ''en-US'',
           intl := \<lparr>cfg_formats = False, cfg_defaultLocale = ''en-US'', cfg_locale = ''en-US''\<rparr>\<rparr>,
        calls = [(1, ''fr''), (1, ''en-US''), (2, ''en-US''), (2, ''fr'')]\<rparr>) \<and>
   currentLocale (onLocaleChange 5 two_subscribers) = ''en-US'' \<and>
   currentLocale (dispose 1 two_subscribers) = ''en-US''"
proof -
  let ?m = "\<lparr>defaultLocale = ''en-US'', currentLocale = ''en-US'',
          intl = \<lparr>cfg_formats = True, cfg_defaultLocale = ''en-US'', cfg_locale = ''en-US''\<rparr>,
          defaultRichTextElements = (Map.empty :: string \<rightharpoonup> nat), localeSubscriptions = []\<rparr>"
  let ?j = "\<lparr>defaultLocale = ''ja'', currentLocale = ''ja'',
          intl = \<lparr>cfg_formats = True, cfg_defaultLocale = ''ja'', cfg_locale = ''ja''\<rparr>,
          defaultRichTextElements = (Map.empty :: string \<rightharpoonup> nat), localeSubscriptions = []\<rparr>"
  let ?s = "\<lparr>mgr = two_subscribers, calls = []\<rparr>"
  let ?en = "\<lparr>mgr = two_subscribers
          \<lparr>currentLocale := ''en-US'',
           intl := \<lparr>cfg_formats = False, cfg_defaultLocale = ''en-US'', cfg_locale = ''en-US''\<rparr>\<rparr>,
        calls = [(1, ''en-US''), (2, ''en-US'')]\<rparr>"
  let ?fr = "\<lparr>mgr = two_subscribers
          \<lparr>currentLocale := ''en-US'',
           intl := \<lparr>cfg_formats = False, cfg_defaultLocale = ''en-US'', cfg_locale = ''en-US''\<rparr>\<rparr>,
        calls = [(1, ''fr''), (1, ''en-US''), (2, ''en-US''), (2, ''fr'')]\<rparr>"
  have built: "new_IntlManager plain_createIntl None (Map.empty :: string \<rightharpoonup> nat) = Inr ?m"
    by (simp add: new_IntlManager_def plain_createIntl_def DEFAULT_LOCALE_def Let_def)
  have built': "new_IntlManager plain_createIntl (Some ''ja'') (Map.empty :: string \<rightharpoonup> nat) = Inr ?j"
    by (simp add: new_IntlManager_def plain_createIntl_def Let_def)
  have same: "setLocale plain_createIntl first_switches_back ''en-US'' ?s = Some (Inr (), ?en)"
    by (simp add: example_runs first_switches_back_def)
  have other: "setLocale plain_createIntl first_switches_back ''fr'' ?s = Some (Inr (), ?fr)"
    by (simp add: example_runs first_switches_back_def)
  let ?de = "\<lparr>mgr = two_subscribers\<lparr>currentLocale := ''de''\<rparr>, calls = []\<rparr>"
  have emitted: "emitLocaleChange plain_createIntl first_switches_back ''fr'' ?de = Some (Inr (), ?fr)"
    by (simp add: example_runs first_switches_back_def)
  have to_en: "\<forall>c l. \<forall>a\<in>set (first_switches_back c l). locale_ok (\<lambda>x. x = ''en-US'') a"
    by (simp add: first_switches_back_def)
  have filled: "\<forall>c l. \<forall>a\<in>set (first_switches_back c l). locale_ok (\<lambda>x. x \<noteq> []) a"
    by (simp add: first_switches_back_def)
  have first: "currentLocale ?m = ''en-US''"
    using currentLocale_is_the_locale_last_set
      [where createIntl = plain_createIntl and elements = Map.empty and m = ?m] built
    by blast
  have second: "currentLocale ?j = ''ja''"
    using currentLocale_is_the_locale_last_set
      [where createIntl = plain_createIntl and elements = Map.empty and m = ?j and d = "''ja''"]
      built'
    by blast
  have third: "currentLocale (mgr ?en) = ''en-US''"
    using currentLocale_is_the_locale_last_set
      [where createIntl = plain_createIntl and prog = first_switches_back and L = "''en-US''"
         and s = ?s and r = "Inr ()" and s' = ?en]
      same to_en
    by blast
  have fourth: "currentLocale (mgr ?fr) \<noteq> []"
    using currentLocale_is_the_locale_last_set
      [where createIntl = plain_createIntl and prog = first_switches_back and L = "''fr''"
         and s = ?s and r = "Inr ()" and s' = ?fr]
      currentLocale_is_the_locale_last_set
      [where createIntl = plain_createIntl and prog = first_switches_back and L = "''fr''"
         and s = ?de and r = "Inr ()" and s' = ?fr]
      other emitted filled
    by (simp add: two_subscribers_def)
  have fifth: "currentLocale (onLocaleChange 5 two_subscribers) = currentLocale two_subscribers
      \<and> currentLocale (dispose 1 two_subscribers) = currentLocale two_subscribers"
    using currentLocale_is_the_locale_last_set [where c = 5 and m = two_subscribers]
      currentLocale_is_the_locale_last_set [where c = 1 and m = two_subscribers]
    by blast
  show ?thesis
    using built built' same other emitted first second third fourth fifth
    by (simp add: two_subscribers_def)
qed

text \<open>
  The claim as stated fails: \<open>setLocale\<close> with the empty string returns and leaves
  \<open>currentLocale\<close> empty, and so does the constructor with an empty default locale.
\<close>

theorem setLocale_accepts_the_empty_locale:
  "setLocale plain_createIntl all_return [] \<lparr>mgr = two_subscribers, calls = []\<rparr> =
     Some (Inr (),
       \<lparr>mgr = two_subscribers
          \<lparr>currentLocale := [],
           intl := \<lparr>cfg_formats = False, cfg_defaultLocale = ''en-US'', cfg_locale = []\<rparr>\<rparr>,
        calls = [(1, []), (2, [])]\<rparr>) \<and>
   new_IntlManager plain_createIntl (Some []) (Map.empty :: string \<rightharpoonup> nat) =
     Inr \<lparr>defaultLocale = [], currentLocale = [],
          intl = \<lparr>cfg_formats = True, cfg_defaultLocale = [], cfg_locale = []\<rparr>,
          defaultRichTextElements = Map.empty, localeSubscriptions = []\<rparr>"
  by (simp add: example_runs all_return_def new_IntlManager_def Let_def)

section \<open>Properties of the compilation of definition files\<close>

lemma try_catch_caught:
  "(\<And>e s'. fst (handler e s') = Inr ()) \<Longrightarrow> fst (try_catch block handler s) = Inr ()"
  by (cases "block s") (auto simp: try_catch_def split: sum.splits)

lemma processFile_returns: "fst (processFile svc cwd filePath s) = Inr ()"
  by (simp add: processFile_def try_catch_caught processFile_catch_def)

lemma scan_loop_step:
  "scan_loop svc cwd (filePath # rest) s = scan_loop svc cwd rest (snd (processFile svc cwd filePath s))"
  using processFile_returns [of svc cwd filePath s]
  by (cases "processFile svc cwd filePath s") (auto split: sum.splits)

lemma scan_loop_returns: "fst (scan_loop svc cwd paths s) = Inr ()"
proof (induction paths arbitrary: s)
  case Nil
  show ?case by simp
next
  case (Cons p paths)
  show ?case
    unfolding scan_loop_step by (rule Cons.IH)
qed

lemma processFile_logs_parse_failure:
  assumes "isMessageDefinitionsFile svc filePath"
    and "processDefinitionsFile svc filePath (database s) = (Inl e, db)"
  shows "console_errors (snd (processFile svc cwd filePath s)) = console_errors s @ [e]"
  using assms
  by (simp add: processFile_def try_catch_def processFile_try_def processFile_catch_def
      console_error_def debug_def)

lemma processFile_logs_precompile_failure:
  assumes "isMessageDefinitionsFile svc filePath"
    and "processDefinitionsFile svc filePath (database s) = (Inr (), db)"
    and "precompile svc filePath ''en-US'' (outputPath cwd filePath) Json db = (Inl e, db')"
  shows "console_errors (snd (processFile svc cwd filePath s)) = console_errors s @ [e]"
  using assms
  by (simp add: processFile_def try_catch_def processFile_try_def processFile_catch_def
      console_error_def debug_def)

lemma compileIntlMessageFiles_result:
  "fst (compileIntlMessageFiles svc fg_stream cwd watchedFolders watch s) =
     (case snd (fg_stream (map (\<lambda>folder. path_join [folder, ''**/*.messages.js''])
                              watchedFolders)) of
        None \<Rightarrow> Inr ()
      | Some e \<Rightarrow> Inl e)"
proof -
  let ?globs = "map (\<lambda>folder. path_join [folder, ''**/*.messages.js'']) watchedFolders"
  obtain found failure where fg: "fg_stream ?globs = (found, failure)"
    by (cases "fg_stream ?globs")
  let ?scan = "scan_loop svc cwd found (debug ''Scanning for initial messages files'' s)"
  obtain s' where scan: "?scan = (Inr (), s')"
    using scan_loop_returns [of svc cwd found "debug ''Scanning for initial messages files'' s"]
    by (cases ?scan) auto
  show ?thesis
    by (cases failure) (simp_all add: compileIntlMessageFiles_def Let_def fg scan)
qed

text \<open>
  C4. Whatever the path and whatever the message database does,
  \<open>processFile\<close> returns normally: an error thrown by \<open>processDefinitionsFile\<close>
  or by \<open>precompile\<close> is caught, written with \<open>console.error\<close>, and not thrown
  again. So the scan goes on with the next path and returns normally, the listener
  of the watcher returns normally, and \<open>compileIntlMessageFiles\<close> fails only with
  an error of the search for files itself. (\<open>isMessageDefinitionsFile\<close>, called
  before the \<open>try\<close>, is a predicate that does not throw.)
\<close>

theorem compile_failures_do_not_propagate:
  "fst (processFile svc cwd filePath s) = Inr () \<and>
   (\<forall>e db. isMessageDefinitionsFile svc filePath \<and>
      processDefinitionsFile svc filePath (database s) = (Inl e, db) \<longrightarrow>
        console_errors (snd (processFile svc cwd filePath s)) = console_errors s @ [e]) \<and>
   (\<forall>e db db'. isMessageDefinitionsFile svc filePath \<and>
      processDefinitionsFile svc filePath (database s) = (Inr (), db) \<and>
      precompile svc filePath ''en-US'' (outputPath cwd filePath) Json db = (Inl e, db') \<longrightarrow>
        console_errors (snd (processFile svc cwd filePath s)) = console_errors s @ [e]) \<and>
   scan_loop svc cwd (filePath # rest) s =
     scan_loop svc cwd rest (snd (processFile svc cwd filePath s)) \<and>
   fst (scan_loop svc cwd paths s) = Inr () \<and>
   fst (on_all svc cwd event filePath s) = Inr () \<and>
   fst (compileIntlMessageFiles svc fg_stream cwd watchedFolders watch s) =
     (case snd (fg_stream (map (\<lambda>folder. path_join [folder, ''**/*.messages.js''])
                              watchedFolders)) of
        None \<Rightarrow> Inr ()
      | Some e \<Rightarrow> Inl e)"
  using processFile_returns [of svc cwd filePath s]
    processFile_logs_parse_failure [of svc filePath s _ _ cwd]
    processFile_logs_precompile_failure [of svc filePath s _ cwd]
    scan_loop_step [of svc cwd filePath rest s]
    scan_loop_returns [of svc cwd paths s]
    processFile_returns [of svc cwd filePath "debug (''Got event '' @ event @ '' for '' @ filePath) s"]
    compileIntlMessageFiles_result [of svc fg_stream cwd watchedFolders watch s]
  unfolding on_all_def by blast

theorem compile_failures_do_not_propagate_witness:
  "fst (processFile failing_compiler ''/app'' ''/app/c.messages.js'' empty_build) = Inr () \<and>
   console_errors (snd (processFile failing_compiler ''/app'' ''/app/c.messages.js'' empty_build)) =
     [Thrown ''parse error''] \<and>
   console_errors (snd (processFile failing_compiler ''/app'' ''/app/e.messages.js'' empty_build)) =
     [Thrown ''write error''] \<and>
   scan_loop failing_compiler ''/app'' [''/app/c.messages.js'', ''/app/d.messages.js''] empty_build =
     (Inr (),
      \<lparr>database = [''/app/d.compiled.messages.jsona''],
       debug_lines = [''Processing file: /app/c.messages.js'',
                      ''[INTL Error] Failed to compile messages'',
                      ''Processing file: /app/d.messages.js''],
       console_errors = [Thrown ''parse error''],
       watching = None\<rparr>)"
proof -
  have candidate: "isMessageDefinitionsFile failing_compiler ''/app/c.messages.js''"
    by code_simp
  have fails: "processDefinitionsFile failing_compiler ''/app/c.messages.js'' (database empty_build) =
                 (Inl (Thrown ''parse error''), [])"
    by (simp add: failing_compiler_def empty_build_def)
  have scan: "scan_loop failing_compiler ''/app'' [''/app/c.messages.js'', ''/app/d.messages.js'']
                empty_build =
     (Inr (),
      \<lparr>database = [''/app/d.compiled.messages.jsona''],
       debug_lines = [''Processing file: /app/c.messages.js'',
                      ''[INTL Error] Failed to compile messages'',
                      ''Processing file: /app/d.messages.js''],
       console_errors = [Thrown ''parse error''],
       watching = None\<rparr>)"
    by code_simp
  have candidate': "isMessageDefinitionsFile failing_compiler ''/app/e.messages.js''"
    by code_simp
  have parses: "processDefinitionsFile failing_compiler ''/app/e.messages.js'' (database empty_build) =
                  (Inr (), [])"
    by (simp add: failing_compiler_def empty_build_def)
  have fails': "precompile failing_compiler ''/app/e.messages.js'' ''en-US''
                  (outputPath ''/app'' ''/app/e.messages.js'') Json [] = (Inl (Thrown ''write error''), [])"
    by (simp add: failing_compiler_def)
  have logged: "console_errors empty_build = []"
    by (simp add: empty_build_def)
  have c: "console_errors (snd (processFile failing_compiler ''/app'' ''/app/c.messages.js'' empty_build)) =
             [Thrown ''parse error'']"
    and returns: "fst (processFile failing_compiler ''/app'' ''/app/c.messages.js'' empty_build) = Inr ()"
    using compile_failures_do_not_propagate
      [of failing_compiler "''/app''" "''/app/c.messages.js''" empty_build]
      candidate fails logged
    by simp_all
  have e: "console_errors (snd (processFile failing_compiler ''/app'' ''/app/e.messages.js'' empty_build)) =
             [Thrown ''write error'']"
    using compile_failures_do_not_propagate
      [of failing_compiler "''/app''" "''/app/e.messages.js''" empty_build]
      candidate' parses fails' logged
    by simp
  show ?thesis
    using returns c e scan by simp
qed

subsection \<open>The output path\<close>

lemma lastIndexOf_from_at:
  "lastIndexOf_from (stem @ needle) needle (length stem) = int (length stem)"
  by (cases stem) simp_all

lemma lastIndexOf_from_suffix:
  assumes "needle \<noteq> []" and "length stem \<le> k" and "k \<le> length stem + length needle"
  shows "lastIndexOf_from (stem @ needle) needle k = int (length stem)"
  using assms(2,3)
proof (induction k)
  case 0
  then show ?case by simp
next
  case (Suc k)
  show ?case
  proof (cases "Suc k = length stem")
    case True
    then show ?thesis by (simp only: lastIndexOf_from_at)
  next
    case False
    with Suc.prems have lt: "length stem \<le> k" by simp
    have shorter: "length (take (length needle) (drop (Suc k) (stem @ needle))) < length needle"
      using lt Suc.prems assms(1) by simp
    have "take (length needle) (drop (Suc k) (stem @ needle)) \<noteq> needle"
    proof
      assume eq: "take (length needle) (drop (Suc k) (stem @ needle)) = needle"
      have "length (take (length needle) (drop (Suc k) (stem @ needle))) = length needle"
        using arg_cong [OF eq, of length] .
      with shorter show False by linarith
    qed
    then have "lastIndexOf_from (stem @ needle) needle (Suc k) =
                 lastIndexOf_from (stem @ needle) needle k"
      by (simp only: lastIndexOf_from.simps if_False)
    then show ?thesis
      using Suc.IH lt Suc.prems by simp
  qed
qed

lemma lastIndexOf_suffix:
  "needle \<noteq> [] \<Longrightarrow> lastIndexOf (stem @ needle) needle = int (length stem)"
  by (simp add: lastIndexOf_def lastIndexOf_from_suffix)

text \<open>
  For a path that ends in \<open>.messages.js\<close>, \<open>fileBasename\<close> is the path without
  that suffix; for an absolute one the output path is the resolved path of the source
  with the suffix replaced, whatever the working directory.
\<close>

lemma fileBasename_of_definition_file:
  "js_substring (stem @ ''.messages.js'') 0 (lastIndexOf (stem @ ''.messages.js'') ''.messages.js'') = stem"
  by (simp add: lastIndexOf_suffix js_substring_def)

lemma outputPath_of_absolute_path:
  "outputPath cwd (CHR ''/'' # stem @ ''.messages.js'') =
     path_resolve cwd [CHR ''/'' # stem @ ''.compiled.messages.jsona'']"
proof -
  have "js_substring ((CHR ''/'' # stem) @ ''.messages.js'') 0
          (lastIndexOf ((CHR ''/'' # stem) @ ''.messages.js'') ''.messages.js'') = CHR ''/'' # stem"
    by (rule fileBasename_of_definition_file)
  then show ?thesis
    by (simp add: outputPath_def path_resolve_def)
qed

text \<open>
  C5. The output path of a definition file should be the path of the file with
  \<open>.messages.js\<close> replaced by \<open>.compiled.messages.jsona\<close>, in the directory of
  the file. For a relative path with a directory, as the watcher reports it for a
  relative watched folder, \<open>processFile\<close> computes another path: in the working
  directory \<open>/work\<close>, the output path of \<open>src/c.messages.js\<close> repeats the
  directory, \<open>src/src/\<close>, where the source with its suffix replaced resolves to
  \<open>src/\<close>.
\<close>

theorem outputPath_relative_path_repeats_directory:
  "outputPath ''/work'' ''src/c.messages.js'' = ''/work/src/src/c.compiled.messages.jsona'' \<and>
   path_resolve ''/work'' [''src/c.compiled.messages.jsona''] = ''/work/src/c.compiled.messages.jsona''"
  by code_simp

end
